theory Spec2Isabelle
  imports Main "HOL-Library.Char_ord" "HOL-Library.List_Lexorder"
begin

section \<open>Data model\<close>

text \<open>
  The relational store behind \<^verbatim>\<open>main.py\<close>. Every column the endpoints read or write
  is a field; identifiers, dates and times are the strings the endpoints pass to the
  store, and the comparisons \<^verbatim>\<open>start_time < $3\<close>, \<^verbatim>\<open>end_time > $4\<close> of the conflict
  query are the lexicographic order on strings (\<open>HH:MM\<close> texts compare as the times do).
  The columns \<^verbatim>\<open>password_hash\<close> and \<^verbatim>\<open>salt\<close> of \<^verbatim>\<open>users\<close> are read by
  \<^verbatim>\<open>login\<close> only and are left out.
\<close>

record user_row =
  u_id :: string
  u_name :: string
  u_email :: string
  u_role :: string
  u_phone :: "string option"

record table_row =
  t_id :: string
  t_number :: int
  t_capacity :: int
  t_location :: "string option"

record booking_row =
  b_id :: string
  b_user_id :: string
  b_table_id :: string
  b_date :: string
  b_start_time :: string
  b_end_time :: string
  b_guests :: int
  b_status :: string
  b_created_at :: string

record store =
  users :: "user_row list"
  tables :: "table_row list"
  bookings :: "booking_row list"

text \<open>The request bodies \<^verbatim>\<open>BookingCreate\<close> and \<^verbatim>\<open>BookingUpdate\<close> (pydantic models).\<close>

record BookingCreate =
  bc_table_id :: string
  bc_date :: string
  bc_start_time :: string
  bc_end_time :: string
  bc_guests :: int

record BookingUpdate =
  bu_table_id :: "string option"
  bu_date :: "string option"
  bu_start_time :: "string option"
  bu_end_time :: "string option"
  bu_guests :: "int option"
  bu_status :: "string option"

text \<open>The field constraints of the two models: \<^verbatim>\<open>guests: Field(..., gt=0)\<close>.\<close>

definition valid_BookingCreate :: "BookingCreate \<Rightarrow> bool" where
  "valid_BookingCreate booking \<longleftrightarrow> bc_guests booking > 0"

definition valid_BookingUpdate :: "BookingUpdate \<Rightarrow> bool" where
  "valid_BookingUpdate booking \<longleftrightarrow>
     (case bu_guests booking of None \<Rightarrow> True | Some g \<Rightarrow> g > 0)"

text \<open>
  The response of \<^verbatim>\<open>create_booking\<close>: the new row with the table's number.
\<close>

record booking_out =
  o_id :: string
  o_user_id :: string
  o_table_id :: string
  o_table_number :: int
  o_date :: string
  o_start_time :: string
  o_end_time :: string
  o_guests :: int
  o_status :: string
  o_created_at :: string

section \<open>Errors\<close>

text \<open>
  Every \<^verbatim>\<open>raise HTTPException(status_code, detail)\<close> of the endpoints is a value
  \<open>HTTPException code detail\<close>. An exception of the database driver (a violated
  constraint) is not caught by the endpoints and is the value \<open>DatabaseError\<close>.
\<close>

datatype detail =
    InvalidTokenPayload
  | TokenHasExpired
  | InvalidToken
  | UserNotFound
  | AdminAccessRequired
  | InvalidRole
  | TableNotFound
  | CapacityExceeded int int
  | TimeConflict string
  | BookingNotFound
  | UpdateOwnBookingsOnly
  | DeleteOwnBookingsOnly
  | InvalidStatus
  | NoFieldsToUpdate

datatype error = HTTPException nat detail | DatabaseError

fun status_code :: "error \<Rightarrow> nat" where
  "status_code (HTTPException code d) = code"
| "status_code DatabaseError = 500"

section \<open>Notifications\<close>

text \<open>
  The three message templates of the endpoints, with the values the f-strings
  interpolate, and the lines the program prints.
\<close>

datatype sms_message =
    BookingConfirmed string int string string string int string
  | BookingUpdated string string
  | BookingCancelled string string string string string

datatype log_line =
    ApiKeyNotSet
  | SmsApiHttpError nat string
  | SmsApiTimedOut
  | SmsSendFailed string
  | NotificationFailedOnCreate string
  | NotificationFailedOnUpdate string
  | NotificationFailedOnDelete string

text \<open>
  What the HTTP POST of \<^verbatim>\<open>send_sms\<close> does: it returns a response whose JSON body
  parses, or raises \<^verbatim>\<open>HTTPStatusError\<close> (from \<^verbatim>\<open>raise_for_status\<close>),
  \<^verbatim>\<open>TimeoutException\<close>, or any other exception.
\<close>

datatype http_outcome =
    ResponseJson string
  | HTTPStatusError nat string
  | TimeoutException
  | OtherException string

record sms_env =
  SMSNOTIF_API_KEY :: "string option"
  post :: "string \<Rightarrow> sms_message \<Rightarrow> http_outcome"

text \<open>
  Python truthiness of an optional string: \<^verbatim>\<open>None\<close> and \<^verbatim>\<open>""\<close> are false.
\<close>

fun truthy :: "string option \<Rightarrow> bool" where
  "truthy None = False"
| "truthy (Some v) = (v \<noteq> [])"

text \<open>
  A call of a notification sender either returns (\<open>Inr\<close>) or raises an exception
  (\<open>Inl\<close>, with the exception's text), and prints some lines on the way.
\<close>

type_synonym sender = "string \<Rightarrow> sms_message \<Rightarrow> (string + string option) \<times> log_line list"

text \<open>\<^verbatim>\<open>sms_service.send_sms\<close>, lines 34-90.\<close>

definition send_sms :: "sms_env \<Rightarrow> sender" where
  "send_sms env phone_number message =
     (if \<not> truthy (SMSNOTIF_API_KEY env) then (Inr None, [ApiKeyNotSet])
      else case post env phone_number message of
        ResponseJson body \<Rightarrow> (Inr (Some body), [])
      | HTTPStatusError code txt \<Rightarrow> (Inr None, [SmsApiHttpError code txt])
      | TimeoutException \<Rightarrow> (Inr None, [SmsApiTimedOut])
      | OtherException e \<Rightarrow> (Inr None, [SmsSendFailed e]))"

text \<open>
  The call sites: \<^verbatim>\<open>try: await send_sms(...) except Exception as e: print(...)\<close>.
  The value the sender returns is dropped; the result is what was printed.
\<close>

definition try_send :: "sender \<Rightarrow> string \<Rightarrow> sms_message \<Rightarrow> (string \<Rightarrow> log_line) \<Rightarrow> log_line list" where
  "try_send send phone_number message on_failure =
     (case send phone_number message of
        (Inr r, out) \<Rightarrow> out
      | (Inl e, out) \<Rightarrow> out @ [on_failure e])"

section \<open>The outcome of an endpoint\<close>

text \<open>
  An endpoint returns a response or raises, leaves the store in some state, and
  prints some lines.
\<close>

record 'a outcome =
  result :: "error + 'a"
  db :: store
  printed :: "log_line list"

definition raises :: "error \<Rightarrow> store \<Rightarrow> 'a outcome" where
  "raises e s = \<lparr>result = Inl e, db = s, printed = []\<rparr>"

section \<open>The store's statements\<close>

text \<open>
  The three single-row queries of the endpoints, each the first matching row or
  \<^verbatim>\<open>None\<close>: \<^verbatim>\<open>SELECT ... FROM users WHERE id = $1\<close>,
  \<^verbatim>\<open>SELECT id, number, capacity FROM tables WHERE id = $1\<close> and
  \<^verbatim>\<open>SELECT * FROM bookings WHERE id = $1\<close>.
\<close>

definition fetch_user :: "string \<Rightarrow> store \<Rightarrow> user_row option" where
  "fetch_user uid s = find (\<lambda>u. u_id u = uid) (users s)"

definition fetch_table :: "string \<Rightarrow> store \<Rightarrow> table_row option" where
  "fetch_table tid s = find (\<lambda>t. t_id t = tid) (tables s)"

definition fetch_booking :: "string \<Rightarrow> store \<Rightarrow> booking_row option" where
  "fetch_booking bid s = find (\<lambda>b. b_id b = bid) (bookings s)"

text \<open>
  Modelled from the spec: the declaration of the tables that \<^verbatim>\<open>main.py\<close> queries
  is not in the repository (\<^verbatim>\<open>database.py\<close> declares other columns). As the spec
  and \<^verbatim>\<open>database.py\<close> have it, a booking's identifier is unique, a booking references
  an existing user and an existing table, and its guest count is positive. A statement
  that would break one of these raises in the driver and changes nothing (\<open>None\<close>).
\<close>

definition row_allowed :: "store \<Rightarrow> booking_row \<Rightarrow> bool" where
  "row_allowed s b \<longleftrightarrow>
     fetch_user (b_user_id b) s \<noteq> None \<and>
     fetch_table (b_table_id b) s \<noteq> None \<and>
     b_guests b > 0"

text \<open>\<^verbatim>\<open>INSERT INTO bookings (...) VALUES (...)\<close>\<close>

definition insert_booking :: "booking_row \<Rightarrow> store \<Rightarrow> store option" where
  "insert_booking b s =
     (if fetch_booking (b_id b) s \<noteq> None \<or> \<not> row_allowed s b then None
      else Some (s\<lparr>bookings := bookings s @ [b]\<rparr>))"

text \<open>
  The dynamic \<^verbatim>\<open>UPDATE bookings SET col = $i, ... WHERE id = $n\<close>: the dictionary
  \<^verbatim>\<open>fields\<close> holds a subset of six fixed keys, so it is a \<open>BookingUpdate\<close>
  (written \<open>flds\<close>) whose absent keys are \<open>None\<close>; each present key overwrites its column.
\<close>

definition set_fields :: "BookingUpdate \<Rightarrow> booking_row \<Rightarrow> booking_row" where
  "set_fields flds b =
     b\<lparr>b_table_id := (case bu_table_id flds of None \<Rightarrow> b_table_id b | Some v \<Rightarrow> v),
       b_date := (case bu_date flds of None \<Rightarrow> b_date b | Some v \<Rightarrow> v),
       b_start_time := (case bu_start_time flds of None \<Rightarrow> b_start_time b | Some v \<Rightarrow> v),
       b_end_time := (case bu_end_time flds of None \<Rightarrow> b_end_time b | Some v \<Rightarrow> v),
       b_guests := (case bu_guests flds of None \<Rightarrow> b_guests b | Some v \<Rightarrow> v),
       b_status := (case bu_status flds of None \<Rightarrow> b_status b | Some v \<Rightarrow> v)\<rparr>"

definition update_bookings :: "BookingUpdate \<Rightarrow> string \<Rightarrow> store \<Rightarrow> store option" where
  "update_bookings flds booking_id s =
     (if list_all (\<lambda>b. b_id b = booking_id \<longrightarrow> row_allowed s (set_fields flds b)) (bookings s)
      then Some (s\<lparr>bookings :=
             map (\<lambda>b. if b_id b = booking_id then set_fields flds b else b) (bookings s)\<rparr>)
      else None)"

text \<open>\<^verbatim>\<open>DELETE FROM bookings WHERE id = $1\<close>\<close>

definition delete_bookings :: "string \<Rightarrow> store \<Rightarrow> store" where
  "delete_bookings booking_id s = s\<lparr>bookings := filter (\<lambda>b. b_id b \<noteq> booking_id) (bookings s)\<rparr>"

section \<open>The conflict check\<close>

text \<open>
  \<^verbatim>\<open>check_booking_conflict\<close>, lines 428-454: the first row of
  \<^verbatim>\<open>SELECT id FROM bookings WHERE table_id = $1 AND date = $2 AND start_time < $3
  AND end_time > $4 AND status != 'cancelled'\<close> with \<open>$3\<close> the requested end and \<open>$4\<close>
  the requested start, and \<^verbatim>\<open>AND id != $5\<close> added when \<^verbatim>\<open>exclude_booking_id\<close> is
  truthy.
\<close>

definition conflicts_with :: "string \<Rightarrow> string \<Rightarrow> string \<Rightarrow> string \<Rightarrow> booking_row \<Rightarrow> bool" where
  "conflicts_with table_id date start_time end_time b \<longleftrightarrow>
     b_table_id b = table_id \<and> b_date b = date \<and>
     b_start_time b < end_time \<and> b_end_time b > start_time \<and>
     b_status b \<noteq> ''cancelled''"

definition check_booking_conflict ::
  "store \<Rightarrow> string \<Rightarrow> string \<Rightarrow> string \<Rightarrow> string \<Rightarrow> string option \<Rightarrow> booking_row option" where
  "check_booking_conflict conn table_id date start_time end_time exclude_booking_id =
     find (\<lambda>b. conflicts_with table_id date start_time end_time b \<and>
                (if truthy exclude_booking_id then Some (b_id b) \<noteq> exclude_booking_id else True))
          (bookings conn)"

section \<open>Access control\<close>

text \<open>
  A bearer token, as \<^verbatim>\<open>create_access_token\<close> builds it (lines 54-59 and 217): the
  claims \<^verbatim>\<open>user_id\<close>, \<^verbatim>\<open>role\<close> and \<^verbatim>\<open>exp\<close>, signed with a key. The library call
  \<^verbatim>\<open>jwt.decode(token, SECRET_KEY, algorithms=["HS256"])\<close> is modelled by what it
  checks: a token signed with another key raises \<^verbatim>\<open>InvalidTokenError\<close>, one whose
  expiry has passed raises \<^verbatim>\<open>ExpiredSignatureError\<close>, any other yields its claims.
\<close>

record claims =
  user_id_claim :: "string option"
  role_claim :: "string option"
  exp_claim :: int

record token =
  payload :: claims
  signed_with :: string

datatype jwt_error = ExpiredSignatureError | InvalidTokenError

definition jwt_decode :: "string \<Rightarrow> int \<Rightarrow> token \<Rightarrow> jwt_error + claims" where
  "jwt_decode key now tok =
     (if signed_with tok \<noteq> key then Inl InvalidTokenError
      else if exp_claim (payload tok) \<le> now then Inl ExpiredSignatureError
      else Inr (payload tok))"

definition create_access_token :: "string \<Rightarrow> int \<Rightarrow> string \<Rightarrow> string \<Rightarrow> token" where
  "create_access_token key now uid role =
     \<lparr>payload = \<lparr>user_id_claim = Some uid, role_claim = Some role, exp_claim = now + 60 * 60\<rparr>,
      signed_with = key\<rparr>"

text \<open>
  \<^verbatim>\<open>get_current_user\<close>, lines 62-99. The row returned is the one of the store:
  \<^verbatim>\<open>SELECT id, name, email, role, phone FROM users WHERE id = $1\<close>.
\<close>

definition get_current_user :: "string \<Rightarrow> int \<Rightarrow> token \<Rightarrow> store \<Rightarrow> error + user_row" where
  "get_current_user SECRET_KEY now tok s =
     (case jwt_decode SECRET_KEY now tok of
        Inl ExpiredSignatureError \<Rightarrow> Inl (HTTPException 401 TokenHasExpired)
      | Inl InvalidTokenError \<Rightarrow> Inl (HTTPException 401 InvalidToken)
      | Inr pl \<Rightarrow>
          (case user_id_claim pl of
             None \<Rightarrow> Inl (HTTPException 401 InvalidTokenPayload)
           | Some user_id \<Rightarrow>
               if user_id = [] then Inl (HTTPException 401 InvalidTokenPayload)
               else (case fetch_user user_id s of
                       None \<Rightarrow> Inl (HTTPException 401 UserNotFound)
                     | Some row \<Rightarrow> Inr row)))"

text \<open>
  An endpoint declared with \<^verbatim>\<open>user=Depends(get_current_user)\<close>: the handler runs
  on the user that \<^verbatim>\<open>get_current_user\<close> returns, and is not run when it raises.
\<close>

definition Depends_get_current_user ::
  "string \<Rightarrow> int \<Rightarrow> token \<Rightarrow> (user_row \<Rightarrow> store \<Rightarrow> 'a outcome) \<Rightarrow> store \<Rightarrow> 'a outcome" where
  "Depends_get_current_user SECRET_KEY now tok handler s =
     (case get_current_user SECRET_KEY now tok s of
        Inl e \<Rightarrow> raises e s
      | Inr user \<Rightarrow> handler user s)"

section \<open>The booking endpoints\<close>

text \<open>
  The notification after a committed change: \<^verbatim>\<open>if user_row and user_row["phone"]\<close>
  guards the call of the sender.
\<close>

definition notify ::
  "sender \<Rightarrow> user_row option \<Rightarrow> (user_row \<Rightarrow> sms_message) \<Rightarrow> (string \<Rightarrow> log_line) \<Rightarrow> log_line list" where
  "notify send user_row message on_failure =
     (case user_row of
        None \<Rightarrow> []
      | Some r \<Rightarrow>
          (case u_phone r of
             None \<Rightarrow> []
           | Some phone \<Rightarrow>
               if phone = [] then [] else try_send send phone (message r) on_failure))"

text \<open>
  \<^verbatim>\<open>create_booking\<close>, lines 497-586. \<open>booking_id\<close> is the value of
  \<^verbatim>\<open>str(uuid.uuid4())\<close> and \<open>created_at\<close> the value of
  \<^verbatim>\<open>datetime.now(UTC7).isoformat()\<close> in this call.
\<close>

definition create_booking ::
  "sender \<Rightarrow> string \<Rightarrow> string \<Rightarrow> BookingCreate \<Rightarrow> user_row \<Rightarrow> store \<Rightarrow> booking_out outcome" where
  "create_booking send booking_id created_at booking user s =
     (case fetch_table (bc_table_id booking) s of
        None \<Rightarrow> raises (HTTPException 404 TableNotFound) s
      | Some table_row \<Rightarrow>
          if bc_guests booking > t_capacity table_row
          then raises (HTTPException 400 (CapacityExceeded (t_capacity table_row) (bc_guests booking))) s
          else
            (case check_booking_conflict s (bc_table_id booking) (bc_date booking)
                    (bc_start_time booking) (bc_end_time booking) None of
               Some conflict \<Rightarrow> raises (HTTPException 409 (TimeConflict (b_id conflict))) s
             | None \<Rightarrow>
                 (case insert_booking
                         \<lparr>b_id = booking_id, b_user_id = u_id user,
                          b_table_id = bc_table_id booking, b_date = bc_date booking,
                          b_start_time = bc_start_time booking, b_end_time = bc_end_time booking,
                          b_guests = bc_guests booking, b_status = ''confirmed'',
                          b_created_at = created_at\<rparr> s of
                    None \<Rightarrow> raises DatabaseError s
                  | Some s' \<Rightarrow>
                      \<lparr>result = Inr
                         \<lparr>o_id = booking_id, o_user_id = u_id user,
                          o_table_id = bc_table_id booking, o_table_number = t_number table_row,
                          o_date = bc_date booking, o_start_time = bc_start_time booking,
                          o_end_time = bc_end_time booking, o_guests = bc_guests booking,
                          o_status = ''confirmed'', o_created_at = created_at\<rparr>,
                       db = s',
                       printed = notify send (fetch_user (u_id user) s')
                         (\<lambda>user_row. BookingConfirmed (u_name user_row) (t_number table_row)
                            (bc_date booking) (bc_start_time booking) (bc_end_time booking)
                            (bc_guests booking) booking_id)
                         NotificationFailedOnCreate\<rparr>)))"

text \<open>
  \<^verbatim>\<open>update_booking\<close>, lines 589-694. \<open>no_fields\<close> is \<^verbatim>\<open>not fields\<close>: none of the
  six keys was put into the dictionary.
\<close>

definition no_fields :: "BookingUpdate \<Rightarrow> bool" where
  "no_fields booking \<longleftrightarrow>
     bu_table_id booking = None \<and> bu_date booking = None \<and> bu_start_time booking = None \<and>
     bu_end_time booking = None \<and> bu_guests booking = None \<and> bu_status booking = None"

definition slot_fields :: "BookingUpdate \<Rightarrow> bool" where
  "slot_fields booking \<longleftrightarrow>
     bu_table_id booking \<noteq> None \<or> bu_date booking \<noteq> None \<or>
     bu_start_time booking \<noteq> None \<or> bu_end_time booking \<noteq> None"

definition invalid_status :: "BookingUpdate \<Rightarrow> bool" where
  "invalid_status booking \<longleftrightarrow>
     (case bu_status booking of
        None \<Rightarrow> False
      | Some st \<Rightarrow> st \<noteq> ''confirmed'' \<and> st \<noteq> ''cancelled'')"

definition not_permitted :: "user_row \<Rightarrow> booking_row \<Rightarrow> bool" where
  "not_permitted user existing \<longleftrightarrow>
     (u_role user \<noteq> ''admin'' \<and> u_role user \<noteq> ''staff'') \<and> b_user_id existing \<noteq> u_id user"

definition update_booking ::
  "sender \<Rightarrow> string \<Rightarrow> BookingUpdate \<Rightarrow> user_row \<Rightarrow> store \<Rightarrow> string outcome" where
  "update_booking send booking_id booking user s =
     (case fetch_booking booking_id s of
        None \<Rightarrow> raises (HTTPException 404 BookingNotFound) s
      | Some existing \<Rightarrow>
          if not_permitted user existing
          then raises (HTTPException 403 UpdateOwnBookingsOnly) s
          else if invalid_status booking
          then raises (HTTPException 400 InvalidStatus) s
          else if no_fields booking
          then raises (HTTPException 400 NoFieldsToUpdate) s
          else
            (case (if slot_fields booking
                   then check_booking_conflict s
                          (b_table_id (set_fields booking existing))
                          (b_date (set_fields booking existing))
                          (b_start_time (set_fields booking existing))
                          (b_end_time (set_fields booking existing))
                          (Some booking_id)
                   else None) of
               Some conflict \<Rightarrow> raises (HTTPException 409 (TimeConflict (b_id conflict))) s
             | None \<Rightarrow>
                 (case update_bookings booking booking_id s of
                    None \<Rightarrow> raises DatabaseError s
                  | Some s' \<Rightarrow>
                      \<lparr>result = Inr (''Booking '' @ booking_id @ '' updated successfully''),
                       db = s',
                       printed = notify send (fetch_user (b_user_id existing) s')
                         (\<lambda>user_row. BookingUpdated (u_name user_row) booking_id)
                         NotificationFailedOnUpdate\<rparr>)))"

text \<open>\<^verbatim>\<open>delete_booking\<close>, lines 697-743.\<close>

definition delete_booking ::
  "sender \<Rightarrow> string \<Rightarrow> user_row \<Rightarrow> store \<Rightarrow> string outcome" where
  "delete_booking send booking_id user s =
     (case fetch_booking booking_id s of
        None \<Rightarrow> raises (HTTPException 404 BookingNotFound) s
      | Some existing \<Rightarrow>
          if not_permitted user existing
          then raises (HTTPException 403 DeleteOwnBookingsOnly) s
          else
            \<lparr>result = Inr (''Booking '' @ booking_id @ '' cancelled successfully''),
             db = delete_bookings booking_id s,
             printed = notify send
               (fetch_user (b_user_id existing) (delete_bookings booking_id s))
               (\<lambda>user_row. BookingCancelled (u_name user_row) booking_id (b_date existing)
                  (b_start_time existing) (b_end_time existing))
               NotificationFailedOnDelete\<rparr>)"

section \<open>Role administration\<close>

text \<open>
  \<^verbatim>\<open>update_user_role\<close>, lines 261-293. \<^verbatim>\<open>UPDATE users SET role = $1 WHERE id = $2\<close>
  answers \<^verbatim>\<open>UPDATE 0\<close> when no row has the identifier, and then nothing has changed.
\<close>

definition update_user_role :: "string \<Rightarrow> string \<Rightarrow> user_row \<Rightarrow> store \<Rightarrow> string outcome" where
  "update_user_role user_id role user s =
     (if u_role user \<noteq> ''admin'' then raises (HTTPException 403 AdminAccessRequired) s
      else if role \<noteq> ''admin'' \<and> role \<noteq> ''staff'' \<and> role \<noteq> ''customer''
      then raises (HTTPException 400 InvalidRole) s
      else if fetch_user user_id s = None then raises (HTTPException 404 UserNotFound) s
      else
        \<lparr>result = Inr (''User '' @ user_id @ '' role updated to '' @ role),
         db = s\<lparr>users := map (\<lambda>u. if u_id u = user_id then u\<lparr>u_role := role\<rparr> else u) (users s)\<rparr>,
         printed = []\<rparr>)"

section \<open>The routes\<close>

text \<open>
  The routes restricted by role or ownership as a client calls them, with a bearer
  token: \<^verbatim>\<open>POST /bookings\<close>, \<^verbatim>\<open>PUT /bookings/{booking_id}\<close>,
  \<^verbatim>\<open>DELETE /bookings/{booking_id}\<close> and \<^verbatim>\<open>PUT /users/{user_id}/role\<close>.
\<close>

definition POST_bookings ::
  "string \<Rightarrow> int \<Rightarrow> sender \<Rightarrow> string \<Rightarrow> string \<Rightarrow> token \<Rightarrow> BookingCreate \<Rightarrow> store \<Rightarrow> booking_out outcome" where
  "POST_bookings SECRET_KEY now send booking_id created_at tok booking s =
     Depends_get_current_user SECRET_KEY now tok (create_booking send booking_id created_at booking) s"

definition PUT_bookings ::
  "string \<Rightarrow> int \<Rightarrow> sender \<Rightarrow> token \<Rightarrow> string \<Rightarrow> BookingUpdate \<Rightarrow> store \<Rightarrow> string outcome" where
  "PUT_bookings SECRET_KEY now send tok booking_id booking s =
     Depends_get_current_user SECRET_KEY now tok (update_booking send booking_id booking) s"

definition DELETE_bookings ::
  "string \<Rightarrow> int \<Rightarrow> sender \<Rightarrow> token \<Rightarrow> string \<Rightarrow> store \<Rightarrow> string outcome" where
  "DELETE_bookings SECRET_KEY now send tok booking_id s =
     Depends_get_current_user SECRET_KEY now tok (delete_booking send booking_id) s"

definition PUT_users_role ::
  "string \<Rightarrow> int \<Rightarrow> token \<Rightarrow> string \<Rightarrow> string \<Rightarrow> store \<Rightarrow> string outcome" where
  "PUT_users_role SECRET_KEY now tok user_id role s =
     Depends_get_current_user SECRET_KEY now tok (update_user_role user_id role) s"

section \<open>The no-overlap invariant and runs of the booking operations\<close>

text \<open>
  Two rows overlap when they are on the same table and date, neither is cancelled,
  and each starts strictly before the other ends.
\<close>

definition overlapping :: "booking_row \<Rightarrow> booking_row \<Rightarrow> bool" where
  "overlapping a b \<longleftrightarrow>
     b_table_id a = b_table_id b \<and> b_date a = b_date b \<and>
     b_status a \<noteq> ''cancelled'' \<and> b_status b \<noteq> ''cancelled'' \<and>
     b_start_time a < b_end_time b \<and> b_start_time b < b_end_time a"

definition no_overlap :: "store \<Rightarrow> bool" where
  "no_overlap s \<longleftrightarrow>
     (\<forall>a \<in> set (bookings s). \<forall>b \<in> set (bookings s). b_id a \<noteq> b_id b \<longrightarrow> \<not> overlapping a b)"

definition unique_ids :: "store \<Rightarrow> bool" where
  "unique_ids s \<longleftrightarrow> distinct (map b_id (bookings s))"

datatype operation =
    CreateBooking string string BookingCreate user_row
  | UpdateBooking string BookingUpdate user_row
  | DeleteBooking string user_row

fun after :: "sender \<Rightarrow> operation \<Rightarrow> store \<Rightarrow> store" where
  "after send (CreateBooking booking_id created_at booking user) s =
     db (create_booking send booking_id created_at booking user s)"
| "after send (UpdateBooking booking_id booking user) s =
     db (update_booking send booking_id booking user s)"
| "after send (DeleteBooking booking_id user) s =
     db (delete_booking send booking_id user s)"

fun run :: "sender \<Rightarrow> operation list \<Rightarrow> store \<Rightarrow> store" where
  "run send [] s = s"
| "run send (x # xs) s = run send xs (after send x s)"

text \<open>
  An update re-confirms a cancelled row when it carries none of table, date, start
  and end, and sets the status of a cancelled row to \<^verbatim>\<open>confirmed\<close>.
\<close>

definition reconfirms :: "operation \<Rightarrow> store \<Rightarrow> bool" where
  "reconfirms x s \<longleftrightarrow>
     (case x of
        UpdateBooking booking_id booking user \<Rightarrow>
          \<not> slot_fields booking \<and> bu_status booking = Some ''confirmed'' \<and>
          (case fetch_booking booking_id s of
             None \<Rightarrow> False
           | Some existing \<Rightarrow> b_status existing = ''cancelled'')
      | _ \<Rightarrow> False)"

text \<open>A run in which no step re-confirms a cancelled row.\<close>

fun no_reconfirm :: "sender \<Rightarrow> operation list \<Rightarrow> store \<Rightarrow> bool" where
  "no_reconfirm send [] s = True"
| "no_reconfirm send (x # xs) s \<longleftrightarrow> \<not> reconfirms x s \<and> no_reconfirm send xs (after send x s)"

section \<open>Notions the properties are stated with\<close>

text \<open>An endpoint failed with the given HTTP status.\<close>

definition failed_with :: "nat \<Rightarrow> 'a outcome \<Rightarrow> bool" where
  "failed_with code out \<longleftrightarrow>
     (case result out of Inl e \<Rightarrow> status_code e = code | Inr r \<Rightarrow> False)"

text \<open>
  The value of a field after a partial update, in the words of the specification:
  the payload's value when it is present, the stored value when it is absent.
\<close>

definition merged :: "'a option \<Rightarrow> 'a \<Rightarrow> 'a" where
  "merged new old = (case new of Some v \<Rightarrow> v | None \<Rightarrow> old)"

text \<open>The columns of a booking that say which booking it is and whose.\<close>

definition identity_of :: "booking_row \<Rightarrow> string \<times> string \<times> string" where
  "identity_of b = (b_id b, b_user_id b, b_created_at b)"

section \<open>A worked example\<close>

text \<open>
  Two customers, an administrator, and table T with four seats; the senders of the
  example have no API key, time out, or raise.
\<close>

definition alice :: user_row where
  "alice = \<lparr>u_id = ''u-alice'', u_name = ''Alice'', u_email = ''alice@example.org'',
            u_role = ''customer'', u_phone = Some ''+6281234567890''\<rparr>"

definition bob :: user_row where
  "bob = \<lparr>u_id = ''u-bob'', u_name = ''Bob'', u_email = ''bob@example.org'',
          u_role = ''customer'', u_phone = None\<rparr>"

definition carol :: user_row where
  "carol = \<lparr>u_id = ''u-carol'', u_name = ''Carol'', u_email = ''carol@example.org'',
            u_role = ''admin'', u_phone = Some ''+6289876543210''\<rparr>"

definition table_T :: table_row where
  "table_T = \<lparr>t_id = ''T'', t_number = 7, t_capacity = 4, t_location = Some ''Patio''\<rparr>"

definition B1 :: booking_row where
  "B1 = \<lparr>b_id = ''B1'', b_user_id = ''u-alice'', b_table_id = ''T'', b_date = ''2024-06-01'',
         b_start_time = ''18:00'', b_end_time = ''19:00'', b_guests = 2,
         b_status = ''confirmed'', b_created_at = ''2024-05-30T10:00:00+07:00''\<rparr>"

definition empty_store :: store where
  "empty_store = \<lparr>users = [alice, bob, carol], tables = [table_T], bookings = []\<rparr>"

definition store_B1 :: store where
  "store_B1 = \<lparr>users = [alice, bob, carol], tables = [table_T], bookings = [B1]\<rparr>"

definition request :: "string \<Rightarrow> string \<Rightarrow> int \<Rightarrow> BookingCreate" where
  "request start_time end_time guests =
     \<lparr>bc_table_id = ''T'', bc_date = ''2024-06-01'', bc_start_time = start_time,
      bc_end_time = end_time, bc_guests = guests\<rparr>"

definition no_change :: BookingUpdate where
  "no_change = \<lparr>bu_table_id = None, bu_date = None, bu_start_time = None,
                 bu_end_time = None, bu_guests = None, bu_status = None\<rparr>"

definition set_status :: "string \<Rightarrow> BookingUpdate" where
  "set_status st = no_change\<lparr>bu_status := Some st\<rparr>"

definition set_guests :: "int \<Rightarrow> BookingUpdate" where
  "set_guests g = no_change\<lparr>bu_guests := Some g\<rparr>"

definition move_to :: "string \<Rightarrow> string \<Rightarrow> BookingUpdate" where
  "move_to start_time end_time =
     no_change\<lparr>bu_start_time := Some start_time, bu_end_time := Some end_time\<rparr>"

definition no_key :: sms_env where
  "no_key = \<lparr>SMSNOTIF_API_KEY = None, post = (\<lambda>phone_number message. TimeoutException)\<rparr>"

definition timing_out :: sms_env where
  "timing_out = \<lparr>SMSNOTIF_API_KEY = Some ''key'', post = (\<lambda>phone_number message. TimeoutException)\<rparr>"

definition delivering :: sms_env where
  "delivering = \<lparr>SMSNOTIF_API_KEY = Some ''key'', post = (\<lambda>phone_number message. ResponseJson ''{}'')\<rparr>"

definition raising :: sender where
  "raising phone_number message = (Inl ''boom'', [])"

definition reconfirm_run :: "operation list" where
  "reconfirm_run =
     [CreateBooking ''B1'' ''2024-05-30T10:00:00+07:00'' (request ''18:00'' ''19:00'' 2) alice,
      UpdateBooking ''B1'' (set_status ''cancelled'') alice,
      CreateBooking ''B2'' ''2024-05-30T11:00:00+07:00'' (request ''18:00'' ''19:00'' 3) bob,
      UpdateBooking ''B1'' (set_status ''confirmed'') alice]"

definition B2 :: booking_row where
  "B2 = \<lparr>b_id = ''B2'', b_user_id = ''u-bob'', b_table_id = ''T'', b_date = ''2024-06-01'',
         b_start_time = ''18:00'', b_end_time = ''19:00'', b_guests = 3,
         b_status = ''confirmed'', b_created_at = ''2024-05-30T11:00:00+07:00''\<rparr>"

definition B3 :: booking_row where
  "B3 = \<lparr>b_id = ''B3'', b_user_id = ''u-bob'', b_table_id = ''T'', b_date = ''2024-06-01'',
         b_start_time = ''19:00'', b_end_time = ''20:00'', b_guests = 4,
         b_status = ''confirmed'', b_created_at = ''2024-05-30T12:00:00+07:00''\<rparr>"

definition store_B1_B3 :: store where
  "store_B1_B3 = \<lparr>users = [alice, bob, carol], tables = [table_T], bookings = [B1, B3]\<rparr>"

definition secret :: string where
  "secret = ''default-secret-change-me-in-production''"

definition token_customer :: token where
  "token_customer = create_access_token secret 1000 ''u-carol'' ''customer''"

definition token_admin :: token where
  "token_admin = create_access_token secret 1000 ''u-carol'' ''admin''"

section \<open>Basic facts\<close>

lemmas endpoint_defs =
  create_booking_def update_booking_def delete_booking_def raises_def
  insert_booking_def update_bookings_def delete_bookings_def row_allowed_def
  check_booking_conflict_def conflicts_with_def fetch_user_def fetch_table_def fetch_booking_def
  not_permitted_def invalid_status_def no_fields_def slot_fields_def set_fields_def
  notify_def try_send_def send_sms_def

lemmas example_defs =
  alice_def bob_def carol_def table_T_def B1_def B2_def B3_def empty_store_def store_B1_def
  store_B1_B3_def
  request_def no_change_def set_status_def set_guests_def move_to_def
  no_key_def timing_out_def delivering_def raising_def

lemma result_raises [simp]: "result (raises e s) = Inl e"
  and db_raises [simp]: "db (raises e s) = s"
  and printed_raises [simp]: "printed (raises e s) = []"
  by (simp_all add: raises_def)

lemma find_Some_ex: "(\<exists>c. find P xs = Some c) \<longleftrightarrow> (\<exists>x \<in> set xs. P x)"
  using find_None_iff [of P xs] by (cases "find P xs") auto

lemma find_SomeD: "find P xs = Some c \<Longrightarrow> P c \<and> c \<in> set xs"
  by (auto simp: find_Some_iff)

lemma conflict_found_iff:
  "(\<exists>c. check_booking_conflict s t d st en None = Some c) \<longleftrightarrow>
   (\<exists>b \<in> set (bookings s). conflicts_with t d st en b)"
  by (simp add: check_booking_conflict_def find_Some_ex)

lemma conflict_found_excluding_iff:
  "booking_id \<noteq> [] \<Longrightarrow>
   (\<exists>c. check_booking_conflict s t d st en (Some booking_id) = Some c) \<longleftrightarrow>
   (\<exists>b \<in> set (bookings s). b_id b \<noteq> booking_id \<and> conflicts_with t d st en b)"
  by (auto simp: check_booking_conflict_def find_Some_ex)

section \<open>The conflict rule at creation\<close>

text \<open>
  Claim C2. Once the table is found and the guests fit, \<^verbatim>\<open>create_booking\<close> fails
  with 409 exactly when some stored row on the same table and date, not cancelled,
  starts strictly before the requested end and ends strictly after the requested
  start; it then persists nothing. When every such row ends at or before the requested
  start (a touching boundary included) or starts at or after the requested end, and
  the store accepts the new row (fresh identifier, known user, positive guest count),
  the booking is created.
\<close>

theorem create_booking_conflict_rule:
  assumes "fetch_table (bc_table_id booking) s = Some table_row"
    and "bc_guests booking \<le> t_capacity table_row"
  shows
   "(failed_with 409 (create_booking send booking_id created_at booking user s) \<longleftrightarrow>
     (\<exists>b \<in> set (bookings s).
        b_table_id b = bc_table_id booking \<and> b_date b = bc_date booking \<and>
        b_status b \<noteq> ''cancelled'' \<and>
        b_start_time b < bc_end_time booking \<and> b_end_time b > bc_start_time booking)) \<and>
    (failed_with 409 (create_booking send booking_id created_at booking user s) \<longrightarrow>
     db (create_booking send booking_id created_at booking user s) = s) \<and>
    ((\<forall>b \<in> set (bookings s).
        b_table_id b = bc_table_id booking \<and> b_date b = bc_date booking \<and>
        b_status b \<noteq> ''cancelled'' \<longrightarrow>
        b_end_time b \<le> bc_start_time booking \<or> bc_end_time booking \<le> b_start_time b) \<and>
     fetch_booking booking_id s = None \<and> fetch_user (u_id user) s \<noteq> None \<and>
     valid_BookingCreate booking \<longrightarrow>
       result (create_booking send booking_id created_at booking user s) =
         Inr \<lparr>o_id = booking_id, o_user_id = u_id user, o_table_id = bc_table_id booking,
              o_table_number = t_number table_row, o_date = bc_date booking,
              o_start_time = bc_start_time booking, o_end_time = bc_end_time booking,
              o_guests = bc_guests booking, o_status = ''confirmed'',
              o_created_at = created_at\<rparr> \<and>
       bookings (db (create_booking send booking_id created_at booking user s)) =
         bookings s @
         [\<lparr>b_id = booking_id, b_user_id = u_id user, b_table_id = bc_table_id booking,
           b_date = bc_date booking, b_start_time = bc_start_time booking,
           b_end_time = bc_end_time booking, b_guests = bc_guests booking,
           b_status = ''confirmed'', b_created_at = created_at\<rparr>])"
proof -
  let ?out = "create_booking send booking_id created_at booking user s"
  let ?chk = "check_booking_conflict s (bc_table_id booking) (bc_date booking)
                (bc_start_time booking) (bc_end_time booking) None"
  have found: "(\<exists>c. ?chk = Some c) \<longleftrightarrow>
      (\<exists>b \<in> set (bookings s). conflicts_with (bc_table_id booking) (bc_date booking)
          (bc_start_time booking) (bc_end_time booking) b)"
    by (rule conflict_found_iff)
  have A: "failed_with 409 ?out \<longleftrightarrow> (\<exists>c. ?chk = Some c)"
    using assms
    by (cases ?chk; cases "insert_booking
          \<lparr>b_id = booking_id, b_user_id = u_id user, b_table_id = bc_table_id booking,
            b_date = bc_date booking, b_start_time = bc_start_time booking,
            b_end_time = bc_end_time booking, b_guests = bc_guests booking,
            b_status = ''confirmed'', b_created_at = created_at\<rparr> s")
       (simp_all add: create_booking_def failed_with_def)
  have B: "(\<exists>c. ?chk = Some c) \<Longrightarrow> db ?out = s"
    using assms by (auto simp: create_booking_def)
  have C: "result ?out = Inr \<lparr>o_id = booking_id, o_user_id = u_id user, o_table_id = bc_table_id booking,
              o_table_number = t_number table_row, o_date = bc_date booking,
              o_start_time = bc_start_time booking, o_end_time = bc_end_time booking,
              o_guests = bc_guests booking, o_status = ''confirmed'',
              o_created_at = created_at\<rparr> \<and>
       bookings (db ?out) = bookings s @
         [\<lparr>b_id = booking_id, b_user_id = u_id user, b_table_id = bc_table_id booking,
           b_date = bc_date booking, b_start_time = bc_start_time booking,
           b_end_time = bc_end_time booking, b_guests = bc_guests booking,
           b_status = ''confirmed'', b_created_at = created_at\<rparr>]"
    if free: "\<forall>b \<in> set (bookings s).
        b_table_id b = bc_table_id booking \<and> b_date b = bc_date booking \<and>
        b_status b \<noteq> ''cancelled'' \<longrightarrow>
        b_end_time b \<le> bc_start_time booking \<or> bc_end_time booking \<le> b_start_time b"
      and ok: "fetch_booking booking_id s = None" "fetch_user (u_id user) s \<noteq> None"
        "valid_BookingCreate booking"
  proof -
    have "\<not> (\<exists>b \<in> set (bookings s). conflicts_with (bc_table_id booking) (bc_date booking)
          (bc_start_time booking) (bc_end_time booking) b)"
      using free by (fastforce simp: conflicts_with_def)
    then have none: "?chk = None" using found by (cases ?chk) auto
    show ?thesis
      using assms ok none
      by (simp add: create_booking_def insert_booking_def row_allowed_def valid_BookingCreate_def)
  qed
  show ?thesis
    using A B C found by (simp add: conflicts_with_def conj_commute conj_left_commute) 
qed

text \<open>
  The scenario of the specification: table T with four seats holds B1 on 2024-06-01
  from 18:00 to 19:00; a request for 18:30-19:30 fails with a time conflict, a
  request for 19:00-20:00 succeeds.
\<close>

theorem create_booking_conflict_rule_witness:
  "fetch_table (bc_table_id (request ''18:30'' ''19:30'' 2)) store_B1 = Some table_T \<and>
   bc_guests (request ''18:30'' ''19:30'' 2) \<le> t_capacity table_T \<and>
   result (create_booking (send_sms no_key) ''B2'' ''2024-05-30T11:00:00+07:00''
             (request ''18:30'' ''19:30'' 2) bob store_B1)
     = Inl (HTTPException 409 (TimeConflict ''B1'')) \<and>
   db (create_booking (send_sms no_key) ''B2'' ''2024-05-30T11:00:00+07:00''
             (request ''18:30'' ''19:30'' 2) bob store_B1) = store_B1 \<and>
   fetch_table (bc_table_id (request ''19:00'' ''20:00'' 2)) store_B1 = Some table_T \<and>
   bc_guests (request ''19:00'' ''20:00'' 2) \<le> t_capacity table_T \<and>
   \<not> failed_with 409 (create_booking (send_sms no_key) ''B2'' ''2024-05-30T11:00:00+07:00''
             (request ''19:00'' ''20:00'' 2) bob store_B1) \<and>
   result (create_booking (send_sms no_key) ''B2'' ''2024-05-30T11:00:00+07:00''
             (request ''19:00'' ''20:00'' 2) bob store_B1)
     = Inr \<lparr>o_id = ''B2'', o_user_id = ''u-bob'', o_table_id = ''T'', o_table_number = 7,
            o_date = ''2024-06-01'', o_start_time = ''19:00'', o_end_time = ''20:00'',
            o_guests = 2, o_status = ''confirmed'',
            o_created_at = ''2024-05-30T11:00:00+07:00''\<rparr>"
proof -
  have t1: "fetch_table (bc_table_id (request ''18:30'' ''19:30'' 2)) store_B1 = Some table_T"
    and t2: "fetch_table (bc_table_id (request ''19:00'' ''20:00'' 2)) store_B1 = Some table_T"
    by (simp_all add: fetch_table_def example_defs)
  have g1: "bc_guests (request ''18:30'' ''19:30'' 2) \<le> t_capacity table_T"
    and g2: "bc_guests (request ''19:00'' ''20:00'' 2) \<le> t_capacity table_T"
    by (simp_all add: example_defs)
  note overlap = create_booking_conflict_rule [OF t1 g1, of "send_sms no_key" "''B2''"
      "''2024-05-30T11:00:00+07:00''" bob]
  note touch = create_booking_conflict_rule [OF t2 g2, of "send_sms no_key" "''B2''"
      "''2024-05-30T11:00:00+07:00''" bob]
  have "failed_with 409 (create_booking (send_sms no_key) ''B2'' ''2024-05-30T11:00:00+07:00''
             (request ''18:30'' ''19:30'' 2) bob store_B1)"
    using overlap by (simp add: example_defs)
  moreover have "\<not> failed_with 409 (create_booking (send_sms no_key) ''B2''
             ''2024-05-30T11:00:00+07:00'' (request ''19:00'' ''20:00'' 2) bob store_B1)"
    using touch by (simp add: example_defs)
  ultimately show ?thesis
    using t1 t2 g1 g2 overlap touch
    by (simp add: endpoint_defs example_defs)
qed

section \<open>The capacity constraint\<close>

text \<open>At creation the capacity is enforced: too many guests give 400 and persist nothing.\<close>

lemma create_booking_capacity:
  assumes "fetch_table (bc_table_id booking) s = Some table_row"
    and "bc_guests booking > t_capacity table_row"
  shows "result (create_booking send booking_id created_at booking user s)
           = Inl (HTTPException 400 (CapacityExceeded (t_capacity table_row) (bc_guests booking))) \<and>
         db (create_booking send booking_id created_at booking user s) = s"
  using assms by (simp add: create_booking_def)

text \<open>
  Claim C3. The capacity constraint is to be enforced on every update that changes the
  table or the guest count. \<^verbatim>\<open>update_booking\<close> has no capacity check: the owner of
  B1 (two guests at table T with four seats) sets the guest count to ten, the update
  succeeds, and the stored booking then has ten guests at a table of four.
\<close>

theorem update_booking_exceeds_capacity:
  "valid_BookingUpdate (set_guests 10) \<and>
   fetch_booking ''B1'' store_B1 = Some B1 \<and>
   result (update_booking (send_sms no_key) ''B1'' (set_guests 10) alice store_B1)
     = Inr ''Booking B1 updated successfully'' \<and>
   fetch_booking ''B1'' (db (update_booking (send_sms no_key) ''B1'' (set_guests 10) alice store_B1))
     = Some (B1\<lparr>b_guests := 10\<rparr>) \<and>
   fetch_table (b_table_id B1)
       (db (update_booking (send_sms no_key) ''B1'' (set_guests 10) alice store_B1))
     = Some table_T \<and>
   t_capacity table_T = 4"
  by (simp add: endpoint_defs example_defs valid_BookingUpdate_def)

section \<open>Partial updates\<close>

lemma set_fields_merged:
  "set_fields booking b =
     \<lparr>b_id = b_id b, b_user_id = b_user_id b,
      b_table_id = merged (bu_table_id booking) (b_table_id b),
      b_date = merged (bu_date booking) (b_date b),
      b_start_time = merged (bu_start_time booking) (b_start_time b),
      b_end_time = merged (bu_end_time booking) (b_end_time b),
      b_guests = merged (bu_guests booking) (b_guests b),
      b_status = merged (bu_status booking) (b_status b),
      b_created_at = b_created_at b\<rparr>"
  by (simp add: set_fields_def merged_def split: option.splits)

lemma update_booking_found:
  assumes "fetch_booking booking_id s = Some existing"
  shows "update_booking send booking_id booking user s =
     (if not_permitted user existing then raises (HTTPException 403 UpdateOwnBookingsOnly) s
      else if invalid_status booking then raises (HTTPException 400 InvalidStatus) s
      else if no_fields booking then raises (HTTPException 400 NoFieldsToUpdate) s
      else
        (case (if slot_fields booking
               then check_booking_conflict s
                      (b_table_id (set_fields booking existing))
                      (b_date (set_fields booking existing))
                      (b_start_time (set_fields booking existing))
                      (b_end_time (set_fields booking existing))
                      (Some booking_id)
               else None) of
           Some conflict \<Rightarrow> raises (HTTPException 409 (TimeConflict (b_id conflict))) s
         | None \<Rightarrow>
             (case update_bookings booking booking_id s of
                None \<Rightarrow> raises DatabaseError s
              | Some s' \<Rightarrow>
                  \<lparr>result = Inr (''Booking '' @ booking_id @ '' updated successfully''),
                   db = s',
                   printed = notify send (fetch_user (b_user_id existing) s')
                     (\<lambda>user_row. BookingUpdated (u_name user_row) booking_id)
                     NotificationFailedOnUpdate\<rparr>)))"
  using assms by (simp add: update_booking_def)

lemma update_booking_failure_keeps_store:
  "result (update_booking send booking_id booking user s) = Inl e \<Longrightarrow>
   db (update_booking send booking_id booking user s) = s"
  by (auto simp: update_booking_def split: option.splits if_splits)

lemma update_booking_success:
  assumes "result (update_booking send booking_id booking user s) = Inr msg"
  shows "db (update_booking send booking_id booking user s) =
           s\<lparr>bookings := map (\<lambda>b. if b_id b = booking_id then set_fields booking b else b) (bookings s)\<rparr>"
  using assms
  by (auto simp: update_booking_def update_bookings_def split: option.splits if_splits)

lemma slot_fields_no_fields: "slot_fields booking \<Longrightarrow> \<not> no_fields booking"
  by (auto simp: slot_fields_def no_fields_def)

lemma update_booking_conflict_iff:
  assumes found: "fetch_booking booking_id s = Some existing" and nonempty: "booking_id \<noteq> []"
  shows "failed_with 409 (update_booking send booking_id booking user s) \<longleftrightarrow>
     \<not> not_permitted user existing \<and> \<not> invalid_status booking \<and> slot_fields booking \<and>
     (\<exists>b \<in> set (bookings s). b_id b \<noteq> booking_id \<and>
        conflicts_with (b_table_id (set_fields booking existing)) (b_date (set_fields booking existing))
          (b_start_time (set_fields booking existing)) (b_end_time (set_fields booking existing)) b)"
proof -
  let ?chk = "check_booking_conflict s
                      (b_table_id (set_fields booking existing))
                      (b_date (set_fields booking existing))
                      (b_start_time (set_fields booking existing))
                      (b_end_time (set_fields booking existing))
                      (Some booking_id)"
  have ex: "(\<exists>c. ?chk = Some c) \<longleftrightarrow> (\<exists>b \<in> set (bookings s). b_id b \<noteq> booking_id \<and>
        conflicts_with (b_table_id (set_fields booking existing)) (b_date (set_fields booking existing))
          (b_start_time (set_fields booking existing)) (b_end_time (set_fields booking existing)) b)"
    using nonempty by (auto simp: check_booking_conflict_def find_Some_ex)
  show ?thesis
    unfolding ex [symmetric] update_booking_found [OF found]
    by (cases ?chk; cases "update_bookings booking booking_id s")
       (auto simp: failed_with_def slot_fields_no_fields)
qed

text \<open>
  Claim C4. For an existing booking, a successful \<^verbatim>\<open>update_booking\<close> leaves every
  other row as it was and gives the booking, in each of table, date, start, end, guests
  and status, the payload's value when it is present and the stored value when it is
  absent. The update fails with 409 exactly when it reaches the conflict check (the
  requester is permitted and a supplied status is valid), at least one of table, date,
  start and end is present, and some other row, not cancelled, on the merged table and
  date starts strictly before the merged end and ends strictly after the merged start;
  the booking itself is left out of the scan. A 409 persists nothing.
\<close>

theorem update_booking_partial_update:
  assumes "fetch_booking booking_id s = Some existing" and "booking_id \<noteq> []"
  shows
   "(\<forall>msg. result (update_booking send booking_id booking user s) = Inr msg \<longrightarrow>
       bookings (db (update_booking send booking_id booking user s)) =
         map (\<lambda>b. if b_id b = booking_id
                  then \<lparr>b_id = b_id b, b_user_id = b_user_id b,
                        b_table_id = merged (bu_table_id booking) (b_table_id b),
                        b_date = merged (bu_date booking) (b_date b),
                        b_start_time = merged (bu_start_time booking) (b_start_time b),
                        b_end_time = merged (bu_end_time booking) (b_end_time b),
                        b_guests = merged (bu_guests booking) (b_guests b),
                        b_status = merged (bu_status booking) (b_status b),
                        b_created_at = b_created_at b\<rparr>
                  else b) (bookings s)) \<and>
    (failed_with 409 (update_booking send booking_id booking user s) \<longleftrightarrow>
       \<not> not_permitted user existing \<and> \<not> invalid_status booking \<and>
       (bu_table_id booking \<noteq> None \<or> bu_date booking \<noteq> None \<or>
        bu_start_time booking \<noteq> None \<or> bu_end_time booking \<noteq> None) \<and>
       (\<exists>b \<in> set (bookings s).
          b_id b \<noteq> booking_id \<and>
          b_table_id b = merged (bu_table_id booking) (b_table_id existing) \<and>
          b_date b = merged (bu_date booking) (b_date existing) \<and>
          b_status b \<noteq> ''cancelled'' \<and>
          b_start_time b < merged (bu_end_time booking) (b_end_time existing) \<and>
          b_end_time b > merged (bu_start_time booking) (b_start_time existing))) \<and>
    (failed_with 409 (update_booking send booking_id booking user s) \<longrightarrow>
       db (update_booking send booking_id booking user s) = s)"
proof -
  let ?out = "update_booking send booking_id booking user s"
  have applied: "\<forall>msg. result ?out = Inr msg \<longrightarrow>
       bookings (db ?out) =
         map (\<lambda>b. if b_id b = booking_id
                  then \<lparr>b_id = b_id b, b_user_id = b_user_id b,
                        b_table_id = merged (bu_table_id booking) (b_table_id b),
                        b_date = merged (bu_date booking) (b_date b),
                        b_start_time = merged (bu_start_time booking) (b_start_time b),
                        b_end_time = merged (bu_end_time booking) (b_end_time b),
                        b_guests = merged (bu_guests booking) (b_guests b),
                        b_status = merged (bu_status booking) (b_status b),
                        b_created_at = b_created_at b\<rparr>
                  else b) (bookings s)"
    by (auto simp: update_booking_success set_fields_merged)
  have kept: "failed_with 409 ?out \<longrightarrow> db ?out = s"
    by (auto simp: failed_with_def update_booking_failure_keeps_store split: sum.splits)
  have rule: "failed_with 409 ?out \<longleftrightarrow>
       \<not> not_permitted user existing \<and> \<not> invalid_status booking \<and>
       (bu_table_id booking \<noteq> None \<or> bu_date booking \<noteq> None \<or>
        bu_start_time booking \<noteq> None \<or> bu_end_time booking \<noteq> None) \<and>
       (\<exists>b \<in> set (bookings s).
          b_id b \<noteq> booking_id \<and>
          b_table_id b = merged (bu_table_id booking) (b_table_id existing) \<and>
          b_date b = merged (bu_date booking) (b_date existing) \<and>
          b_status b \<noteq> ''cancelled'' \<and>
          b_start_time b < merged (bu_end_time booking) (b_end_time existing) \<and>
          b_end_time b > merged (bu_start_time booking) (b_start_time existing))"
    unfolding update_booking_conflict_iff [OF assms] set_fields_merged
    by (simp add: slot_fields_def conflicts_with_def conj_commute conj_left_commute)
  show ?thesis
    using applied kept rule by blast
qed

text \<open>
  With B1 at 18:00-19:00 and B3 at 19:00-20:00 on table T: moving B1 to 18:30-19:30
  runs into B3 and changes nothing; moving it to 18:30-19:00 overlaps only B1's own
  former slot and is applied; an update of the guest count alone is never a conflict.
\<close>

theorem update_booking_partial_update_witness:
  "fetch_booking ''B1'' store_B1_B3 = Some B1 \<and> ''B1'' \<noteq> [] \<and>
   failed_with 409 (update_booking (send_sms no_key) ''B1'' (move_to ''18:30'' ''19:30'') alice store_B1_B3) \<and>
   db (update_booking (send_sms no_key) ''B1'' (move_to ''18:30'' ''19:30'') alice store_B1_B3)
     = store_B1_B3 \<and>
   \<not> failed_with 409 (update_booking (send_sms no_key) ''B1'' (move_to ''18:30'' ''19:00'') alice store_B1_B3) \<and>
   result (update_booking (send_sms no_key) ''B1'' (move_to ''18:30'' ''19:00'') alice store_B1_B3)
     = Inr ''Booking B1 updated successfully'' \<and>
   bookings (db (update_booking (send_sms no_key) ''B1'' (move_to ''18:30'' ''19:00'') alice store_B1_B3))
     = [B1\<lparr>b_start_time := ''18:30''\<rparr>, B3] \<and>
   \<not> failed_with 409 (update_booking (send_sms no_key) ''B1'' (set_guests 3) alice store_B1_B3)"
proof -
  have found: "fetch_booking ''B1'' store_B1_B3 = Some B1"
    by (simp add: fetch_booking_def example_defs)
  have named: "''B1'' \<noteq> []"
    by simp
  note clash = update_booking_partial_update [OF found named, of "send_sms no_key"
      "move_to ''18:30'' ''19:30''" alice]
  note shrink = update_booking_partial_update [OF found named, of "send_sms no_key"
      "move_to ''18:30'' ''19:00''" alice]
  note guests = update_booking_partial_update [OF found named, of "send_sms no_key"
      "set_guests 3" alice]
  have a: "failed_with 409 (update_booking (send_sms no_key) ''B1'' (move_to ''18:30'' ''19:30'') alice store_B1_B3)"
    using clash by (simp add: example_defs not_permitted_def invalid_status_def merged_def)
  have b: "\<not> failed_with 409 (update_booking (send_sms no_key) ''B1'' (move_to ''18:30'' ''19:00'') alice store_B1_B3)"
    using shrink by (simp add: example_defs not_permitted_def invalid_status_def merged_def)
  have c: "\<not> failed_with 409 (update_booking (send_sms no_key) ''B1'' (set_guests 3) alice store_B1_B3)"
    using guests by (simp add: example_defs)
  have d: "result (update_booking (send_sms no_key) ''B1'' (move_to ''18:30'' ''19:00'') alice store_B1_B3)
     = Inr ''Booking B1 updated successfully''"
    by (simp add: endpoint_defs example_defs)
  have e: "bookings (db (update_booking (send_sms no_key) ''B1'' (move_to ''18:30'' ''19:00'') alice store_B1_B3))
     = [B1\<lparr>b_start_time := ''18:30''\<rparr>, B3]"
    using shrink d by (simp add: example_defs merged_def)
  have f: "db (update_booking (send_sms no_key) ''B1'' (move_to ''18:30'' ''19:30'') alice store_B1_B3)
     = store_B1_B3"
    using clash a by blast
  show ?thesis
    using found a b c d e f by simp
qed

section \<open>The ownership check\<close>

text \<open>
  Claim C5. For an existing booking, \<^verbatim>\<open>update_booking\<close> and \<^verbatim>\<open>delete_booking\<close>
  fail with 403 exactly when the requester's role is neither admin nor staff and the
  requester is not the booking's owning user.
\<close>

theorem ownership_check:
  assumes "fetch_booking booking_id s = Some existing"
  shows
   "(failed_with 403 (update_booking send booking_id booking user s) \<longleftrightarrow>
       u_role user \<noteq> ''admin'' \<and> u_role user \<noteq> ''staff'' \<and> b_user_id existing \<noteq> u_id user) \<and>
    (failed_with 403 (delete_booking send booking_id user s) \<longleftrightarrow>
       u_role user \<noteq> ''admin'' \<and> u_role user \<noteq> ''staff'' \<and> b_user_id existing \<noteq> u_id user)"
proof -
  have upd: "failed_with 403 (update_booking send booking_id booking user s) \<longleftrightarrow>
      not_permitted user existing"
    unfolding update_booking_found [OF assms]
    by (auto simp: failed_with_def split: option.splits)
  have del: "failed_with 403 (delete_booking send booking_id user s) \<longleftrightarrow>
      not_permitted user existing"
    using assms by (simp add: delete_booking_def failed_with_def)
  show ?thesis
    using upd del by (simp add: not_permitted_def)
qed

text \<open>An admin or a staff member is never answered 403, whatever the booking.\<close>

lemma staff_never_denied:
  assumes "u_role user = ''admin'' \<or> u_role user = ''staff''"
  shows "\<not> failed_with 403 (update_booking send booking_id booking user s)"
    and "\<not> failed_with 403 (delete_booking send booking_id user s)"
  using assms
  by (auto simp: update_booking_def delete_booking_def failed_with_def not_permitted_def
      split: option.splits)

text \<open>
  B1 belongs to Alice: the customer Bob is refused, Alice and the administrator Carol
  are not.
\<close>

theorem ownership_check_witness:
  "fetch_booking ''B1'' store_B1 = Some B1 \<and>
   failed_with 403 (update_booking (send_sms no_key) ''B1'' (set_guests 3) bob store_B1) \<and>
   failed_with 403 (delete_booking (send_sms no_key) ''B1'' bob store_B1) \<and>
   \<not> failed_with 403 (update_booking (send_sms no_key) ''B1'' (set_guests 3) alice store_B1) \<and>
   \<not> failed_with 403 (delete_booking (send_sms no_key) ''B1'' alice store_B1) \<and>
   \<not> failed_with 403 (update_booking (send_sms no_key) ''B1'' (set_guests 3) carol store_B1) \<and>
   \<not> failed_with 403 (delete_booking (send_sms no_key) ''B1'' carol store_B1)"
proof -
  have found: "fetch_booking ''B1'' store_B1 = Some B1"
    by (simp add: fetch_booking_def example_defs)
  show ?thesis
    using found
      ownership_check [OF found, of "send_sms no_key" "set_guests 3" bob]
      ownership_check [OF found, of "send_sms no_key" "set_guests 3" alice]
      ownership_check [OF found, of "send_sms no_key" "set_guests 3" carol]
    by (simp add: example_defs)
qed

section \<open>The empty update\<close>

text \<open>
  Claim C6, as stated, fails for a requester who does not pass the ownership check:
  that check comes first, so the customer Bob sending an empty payload for Alice's
  booking is answered 403, not 400.
\<close>

theorem empty_update_by_stranger:
  "fetch_booking ''B1'' store_B1 = Some B1 \<and> no_fields no_change \<and>
   result (update_booking (send_sms no_key) ''B1'' no_change bob store_B1)
     = Inl (HTTPException 403 UpdateOwnBookingsOnly) \<and>
   \<not> failed_with 400 (update_booking (send_sms no_key) ''B1'' no_change bob store_B1)"
  by (simp add: endpoint_defs example_defs failed_with_def)

text \<open>
  Claim C6, amended. For every existing booking and every requester who is admin, staff
  or the booking's owner, \<^verbatim>\<open>update_booking\<close> with a payload that has none of table,
  date, start, end, guests and status fails with 400 and leaves the store unchanged.
\<close>

theorem empty_update_rejected:
  assumes "fetch_booking booking_id s = Some existing"
    and "u_role user = ''admin'' \<or> u_role user = ''staff'' \<or> b_user_id existing = u_id user"
    and "bu_table_id booking = None" and "bu_date booking = None"
    and "bu_start_time booking = None" and "bu_end_time booking = None"
    and "bu_guests booking = None" and "bu_status booking = None"
  shows "result (update_booking send booking_id booking user s)
           = Inl (HTTPException 400 NoFieldsToUpdate) \<and>
         failed_with 400 (update_booking send booking_id booking user s) \<and>
         db (update_booking send booking_id booking user s) = s"
  unfolding update_booking_found [OF assms(1)]
  using assms(2-)
  by (auto simp: failed_with_def not_permitted_def invalid_status_def no_fields_def)

text \<open>Alice sends an empty payload for her own booking B1.\<close>

theorem empty_update_rejected_witness:
  "fetch_booking ''B1'' store_B1 = Some B1 \<and>
   (u_role alice = ''admin'' \<or> u_role alice = ''staff'' \<or> b_user_id B1 = u_id alice) \<and>
   bu_table_id no_change = None \<and> bu_date no_change = None \<and>
   bu_start_time no_change = None \<and> bu_end_time no_change = None \<and>
   bu_guests no_change = None \<and> bu_status no_change = None \<and>
   result (update_booking (send_sms no_key) ''B1'' no_change alice store_B1)
     = Inl (HTTPException 400 NoFieldsToUpdate) \<and>
   failed_with 400 (update_booking (send_sms no_key) ''B1'' no_change alice store_B1) \<and>
   db (update_booking (send_sms no_key) ''B1'' no_change alice store_B1) = store_B1"
proof -
  have found: "fetch_booking ''B1'' store_B1 = Some B1"
    by (simp add: fetch_booking_def example_defs)
  have owner: "u_role alice = ''admin'' \<or> u_role alice = ''staff'' \<or> b_user_id B1 = u_id alice"
    by (simp add: example_defs)
  have absent: "bu_table_id no_change = None" "bu_date no_change = None"
    "bu_start_time no_change = None" "bu_end_time no_change = None"
    "bu_guests no_change = None" "bu_status no_change = None"
    by (simp_all add: no_change_def)
  show ?thesis
    using found owner absent
      empty_update_rejected [OF found owner absent, of "send_sms no_key"]
    by simp
qed

section \<open>Booking a freed slot\<close>

lemma delete_booking_found:
  assumes "fetch_booking booking_id s = Some existing" and "\<not> not_permitted user existing"
  shows "result (delete_booking send booking_id user s)
           = Inr (''Booking '' @ booking_id @ '' cancelled successfully'')"
    and "db (delete_booking send booking_id user s) = delete_bookings booking_id s"
  using assms by (simp_all add: delete_booking_def)

lemma create_booking_succeeds:
  assumes "fetch_table (bc_table_id booking) s = Some table_row"
    and "bc_guests booking \<le> t_capacity table_row"
    and "\<forall>b \<in> set (bookings s). \<not> conflicts_with (bc_table_id booking) (bc_date booking)
           (bc_start_time booking) (bc_end_time booking) b"
    and "fetch_booking booking_id s = None"
    and "fetch_user (u_id user) s \<noteq> None"
    and "0 < bc_guests booking"
  shows "result (create_booking send booking_id created_at booking user s) =
         Inr \<lparr>o_id = booking_id, o_user_id = u_id user, o_table_id = bc_table_id booking,
              o_table_number = t_number table_row, o_date = bc_date booking,
              o_start_time = bc_start_time booking, o_end_time = bc_end_time booking,
              o_guests = bc_guests booking, o_status = ''confirmed'',
              o_created_at = created_at\<rparr>"
proof -
  have "check_booking_conflict s (bc_table_id booking) (bc_date booking)
          (bc_start_time booking) (bc_end_time booking) None = None"
    using assms(3) by (simp add: check_booking_conflict_def find_None_iff)
  then show ?thesis
    using assms(1,2,4,5,6)
    by (simp add: create_booking_def insert_booking_def row_allowed_def)
qed

text \<open>
  Claim C7. Let B be a stored booking that a permitted requester removes with
  \<^verbatim>\<open>delete_booking\<close>. A following \<^verbatim>\<open>create_booking\<close> for B's table, date and exact
  interval does not fail with a time conflict and succeeds, provided no other stored
  booking conflicts with that interval, the guests are positive and within the table's
  capacity, the new requester is a known user and the new identifier is not in use.
\<close>

theorem rebook_after_delete:
  assumes found: "fetch_booking booking_id s = Some B"
    and permitted: "u_role user = ''admin'' \<or> u_role user = ''staff'' \<or> b_user_id B = u_id user"
    and table: "fetch_table (b_table_id B) s = Some table_row"
    and fits: "0 < guests" "guests \<le> t_capacity table_row"
    and known: "fetch_user (u_id requester) s \<noteq> None"
    and fresh: "\<forall>b \<in> set (bookings s). b_id b \<noteq> booking_id \<longrightarrow> b_id b \<noteq> new_id"
    and others: "\<forall>b \<in> set (bookings s). b_id b \<noteq> booking_id \<longrightarrow>
        \<not> conflicts_with (b_table_id B) (b_date B) (b_start_time B) (b_end_time B) b"
  shows
   "result (delete_booking send booking_id user s)
      = Inr (''Booking '' @ booking_id @ '' cancelled successfully'') \<and>
    \<not> failed_with 409
        (create_booking send new_id created_at
           \<lparr>bc_table_id = b_table_id B, bc_date = b_date B, bc_start_time = b_start_time B,
            bc_end_time = b_end_time B, bc_guests = guests\<rparr>
           requester (db (delete_booking send booking_id user s))) \<and>
    result
        (create_booking send new_id created_at
           \<lparr>bc_table_id = b_table_id B, bc_date = b_date B, bc_start_time = b_start_time B,
            bc_end_time = b_end_time B, bc_guests = guests\<rparr>
           requester (db (delete_booking send booking_id user s)))
      = Inr \<lparr>o_id = new_id, o_user_id = u_id requester, o_table_id = b_table_id B,
             o_table_number = t_number table_row, o_date = b_date B,
             o_start_time = b_start_time B, o_end_time = b_end_time B,
             o_guests = guests, o_status = ''confirmed'', o_created_at = created_at\<rparr>"
proof -
  let ?s' = "delete_bookings booking_id s"
  let ?req = "\<lparr>bc_table_id = b_table_id B, bc_date = b_date B, bc_start_time = b_start_time B,
            bc_end_time = b_end_time B, bc_guests = guests\<rparr>"
  have ok: "\<not> not_permitted user B"
    using permitted by (auto simp: not_permitted_def)
  have rows: "set (bookings ?s') = {b \<in> set (bookings s). b_id b \<noteq> booking_id}"
    by (auto simp: delete_bookings_def)
  have same: "users ?s' = users s" "tables ?s' = tables s"
    by (simp_all add: delete_bookings_def)
  have 1: "fetch_table (bc_table_id ?req) ?s' = Some table_row"
    using table same by (simp add: fetch_table_def)
  have 2: "bc_guests ?req \<le> t_capacity table_row" "0 < bc_guests ?req"
    using fits by simp_all
  have 3: "\<forall>b \<in> set (bookings ?s'). \<not> conflicts_with (bc_table_id ?req) (bc_date ?req)
           (bc_start_time ?req) (bc_end_time ?req) b"
    using others rows by simp
  have 4: "fetch_booking new_id ?s' = None"
    using fresh rows by (auto simp: fetch_booking_def find_None_iff)
  have 5: "fetch_user (u_id requester) ?s' \<noteq> None"
    using known same by (simp add: fetch_user_def)
  have created: "result (create_booking send new_id created_at ?req requester ?s')
      = Inr \<lparr>o_id = new_id, o_user_id = u_id requester, o_table_id = b_table_id B,
             o_table_number = t_number table_row, o_date = b_date B,
             o_start_time = b_start_time B, o_end_time = b_end_time B,
             o_guests = guests, o_status = ''confirmed'', o_created_at = created_at\<rparr>"
    using create_booking_succeeds [OF 1 2(1) 3 4 5 2(2), of send created_at] by simp
  show ?thesis
    using delete_booking_found [OF found ok, of send] created
    by (simp add: failed_with_def)
qed

text \<open>
  Alice deletes B1 (18:00-19:00) while B3 (19:00-20:00) stays; Bob then books
  18:00-19:00 at the same table for four guests.
\<close>

theorem rebook_after_delete_witness:
  "fetch_booking ''B1'' store_B1_B3 = Some B1 \<and>
   (u_role alice = ''admin'' \<or> u_role alice = ''staff'' \<or> b_user_id B1 = u_id alice) \<and>
   fetch_table (b_table_id B1) store_B1_B3 = Some table_T \<and>
   (0::int) < 4 \<and> 4 \<le> t_capacity table_T \<and>
   fetch_user (u_id bob) store_B1_B3 \<noteq> None \<and>
   result (delete_booking (send_sms no_key) ''B1'' alice store_B1_B3)
      = Inr ''Booking B1 cancelled successfully'' \<and>
   bookings (db (delete_booking (send_sms no_key) ''B1'' alice store_B1_B3)) = [B3] \<and>
   result
     (create_booking (send_sms no_key) ''B2'' ''2024-05-30T13:00:00+07:00''
        \<lparr>bc_table_id = b_table_id B1, bc_date = b_date B1, bc_start_time = b_start_time B1,
         bc_end_time = b_end_time B1, bc_guests = 4\<rparr>
        bob (db (delete_booking (send_sms no_key) ''B1'' alice store_B1_B3)))
   = Inr \<lparr>o_id = ''B2'', o_user_id = ''u-bob'', o_table_id = ''T'', o_table_number = 7,
          o_date = ''2024-06-01'', o_start_time = ''18:00'', o_end_time = ''19:00'',
          o_guests = 4, o_status = ''confirmed'',
          o_created_at = ''2024-05-30T13:00:00+07:00''\<rparr>"
proof -
  have found: "fetch_booking ''B1'' store_B1_B3 = Some B1"
    by (simp add: fetch_booking_def example_defs)
  have permitted: "u_role alice = ''admin'' \<or> u_role alice = ''staff'' \<or> b_user_id B1 = u_id alice"
    by (simp add: example_defs)
  have table: "fetch_table (b_table_id B1) store_B1_B3 = Some table_T"
    by (simp add: fetch_table_def example_defs)
  have fits: "(0::int) < 4" "4 \<le> t_capacity table_T"
    by (simp_all add: example_defs)
  have known: "fetch_user (u_id bob) store_B1_B3 \<noteq> None"
    by (simp add: fetch_user_def example_defs)
  have fresh: "\<forall>b \<in> set (bookings store_B1_B3). b_id b \<noteq> ''B1'' \<longrightarrow> b_id b \<noteq> ''B2''"
    by (simp add: example_defs)
  have others: "\<forall>b \<in> set (bookings store_B1_B3). b_id b \<noteq> ''B1'' \<longrightarrow>
      \<not> conflicts_with (b_table_id B1) (b_date B1) (b_start_time B1) (b_end_time B1) b"
    by (simp add: example_defs conflicts_with_def)
  have left: "bookings (db (delete_booking (send_sms no_key) ''B1'' alice store_B1_B3)) = [B3]"
    by (simp add: endpoint_defs example_defs)
  show ?thesis
    using found permitted table fits known left
      rebook_after_delete [OF found permitted table fits known fresh others,
        of "send_sms no_key" "''2024-05-30T13:00:00+07:00''"]
    by (simp add: example_defs)
qed

text \<open>
  The same holds when the booking is kept and only marked: after an update that sets
  the status to \<^verbatim>\<open>cancelled\<close>, the row is skipped by the conflict scan.
\<close>

lemma rebook_after_cancel:
  assumes found: "fetch_booking booking_id s = Some B"
    and accepted: "result (update_booking send booking_id (set_status ''cancelled'') user s) = Inr msg"
    and table: "fetch_table (b_table_id B) s = Some table_row"
    and fits: "0 < guests" "guests \<le> t_capacity table_row"
    and known: "fetch_user (u_id requester) s \<noteq> None"
    and fresh: "fetch_booking new_id s = None"
    and others: "\<forall>b \<in> set (bookings s). b_id b \<noteq> booking_id \<longrightarrow>
        \<not> conflicts_with (b_table_id B) (b_date B) (b_start_time B) (b_end_time B) b"
  shows
   "result
        (create_booking send new_id created_at
           \<lparr>bc_table_id = b_table_id B, bc_date = b_date B, bc_start_time = b_start_time B,
            bc_end_time = b_end_time B, bc_guests = guests\<rparr>
           requester (db (update_booking send booking_id (set_status ''cancelled'') user s)))
      = Inr \<lparr>o_id = new_id, o_user_id = u_id requester, o_table_id = b_table_id B,
             o_table_number = t_number table_row, o_date = b_date B,
             o_start_time = b_start_time B, o_end_time = b_end_time B,
             o_guests = guests, o_status = ''confirmed'', o_created_at = created_at\<rparr>"
proof -
  let ?upd = "set_status ''cancelled''"
  let ?s' = "s\<lparr>bookings := map (\<lambda>b. if b_id b = booking_id then set_fields ?upd b else b) (bookings s)\<rparr>"
  let ?req = "\<lparr>bc_table_id = b_table_id B, bc_date = b_date B, bc_start_time = b_start_time B,
            bc_end_time = b_end_time B, bc_guests = guests\<rparr>"
  have db: "db (update_booking send booking_id ?upd user s) = ?s'"
    using accepted by (rule update_booking_success)
  have cancelled: "b_status (set_fields ?upd b) = ''cancelled''" for b
    by (simp add: set_fields_def set_status_def no_change_def)
  have ids: "b_id (set_fields ?upd b) = b_id b" for b
    by (simp add: set_fields_def)
  have 1: "fetch_table (bc_table_id ?req) ?s' = Some table_row"
    using table by (simp add: fetch_table_def)
  have 3: "\<forall>b \<in> set (bookings ?s'). \<not> conflicts_with (bc_table_id ?req) (bc_date ?req)
           (bc_start_time ?req) (bc_end_time ?req) b"
    using others cancelled by (auto simp: conflicts_with_def)
  have 4: "fetch_booking new_id ?s' = None"
    using fresh ids by (auto simp: fetch_booking_def find_None_iff)
  have 5: "fetch_user (u_id requester) ?s' \<noteq> None"
    using known by (simp add: fetch_user_def)
  show ?thesis
    unfolding db
    using create_booking_succeeds [OF 1 _ 3 4 5, of send created_at] fits by simp
qed

section \<open>The role comes from the stored user\<close>

lemma fetch_user_id: "fetch_user uid s = Some row \<Longrightarrow> u_id row = uid"
  by (auto simp: fetch_user_def dest: find_SomeD)

lemma get_current_user_live:
  assumes "get_current_user SECRET_KEY now tok s = Inr user"
  shows "fetch_user (u_id user) s = Some user"
  using assms
  by (auto simp: get_current_user_def fetch_user_id
      split: sum.splits jwt_error.splits option.splits if_splits)

lemma Depends_same_user:
  assumes "get_current_user SECRET_KEY now t1 s = get_current_user SECRET_KEY now t2 s"
  shows "Depends_get_current_user SECRET_KEY now t1 handler s =
         Depends_get_current_user SECRET_KEY now t2 handler s"
  using assms by (simp add: Depends_get_current_user_def)

text \<open>
  Claim C8. Two bearer tokens that carry the same \<^verbatim>\<open>user_id\<close> and are equally valid
  (both signed with the server's key or both not, both expired or both not), whatever
  their \<^verbatim>\<open>role\<close> claims, resolve to the same user or the same error, and a user they
  resolve to is the row of the store (so its role is the stored one). Every handler that receives its user
  through \<^verbatim>\<open>Depends(get_current_user)\<close> therefore gives the same outcome for both
  tokens: the same response or error, the same store, the same printed lines. This is
  stated for an arbitrary handler and for the restricted routes in particular.
\<close>

theorem role_from_live_record:
  assumes "user_id_claim (payload t1) = user_id_claim (payload t2)"
    and "signed_with t1 = SECRET_KEY \<longleftrightarrow> signed_with t2 = SECRET_KEY"
    and "exp_claim (payload t1) \<le> now \<longleftrightarrow> exp_claim (payload t2) \<le> now"
  shows
   "get_current_user SECRET_KEY now t1 s = get_current_user SECRET_KEY now t2 s \<and>
    (\<forall>user. get_current_user SECRET_KEY now t1 s = Inr user \<longrightarrow>
       fetch_user (u_id user) s = Some user) \<and>
    Depends_get_current_user SECRET_KEY now t1 handler s =
      Depends_get_current_user SECRET_KEY now t2 handler s \<and>
    POST_bookings SECRET_KEY now send new_id created_at t1 new_booking s =
      POST_bookings SECRET_KEY now send new_id created_at t2 new_booking s \<and>
    PUT_bookings SECRET_KEY now send t1 booking_id booking s =
      PUT_bookings SECRET_KEY now send t2 booking_id booking s \<and>
    DELETE_bookings SECRET_KEY now send t1 booking_id s =
      DELETE_bookings SECRET_KEY now send t2 booking_id s \<and>
    PUT_users_role SECRET_KEY now t1 user_id role s =
      PUT_users_role SECRET_KEY now t2 user_id role s"
proof -
  have "map_sum id user_id_claim (jwt_decode SECRET_KEY now t1)
      = map_sum id user_id_claim (jwt_decode SECRET_KEY now t2)"
    using assms by (auto simp: jwt_decode_def)
  then have same: "get_current_user SECRET_KEY now t1 s = get_current_user SECRET_KEY now t2 s"
    by (cases "jwt_decode SECRET_KEY now t1"; cases "jwt_decode SECRET_KEY now t2")
       (simp_all add: get_current_user_def)
  show ?thesis
    using same get_current_user_live [of SECRET_KEY now t1 s]
    by (simp add: POST_bookings_def PUT_bookings_def DELETE_bookings_def PUT_users_role_def
        Depends_same_user [OF same])
qed

text \<open>
  Carol is an administrator in the store. A token for her with the role claim
  \<^verbatim>\<open>customer\<close> and one with the role claim \<^verbatim>\<open>admin\<close> both let her change Bob's
  role and update Alice's booking.
\<close>

theorem role_from_live_record_witness:
  "user_id_claim (payload token_customer) = user_id_claim (payload token_admin) \<and>
   (signed_with token_customer = secret \<longleftrightarrow> signed_with token_admin = secret) \<and>
   (exp_claim (payload token_customer) \<le> 2000 \<longleftrightarrow> exp_claim (payload token_admin) \<le> 2000) \<and>
   jwt_decode secret 2000 token_customer = Inr (payload token_customer) \<and>
   jwt_decode secret 2000 token_admin = Inr (payload token_admin) \<and>
   role_claim (payload token_customer) = Some ''customer'' \<and>
   role_claim (payload token_admin) = Some ''admin'' \<and>
   get_current_user secret 2000 token_customer empty_store = Inr carol \<and>
   get_current_user secret 2000 token_admin empty_store = Inr carol \<and>
   u_role carol = ''admin'' \<and>
   result (PUT_users_role secret 2000 token_customer ''u-bob'' ''staff'' empty_store)
     = Inr ''User u-bob role updated to staff'' \<and>
   PUT_users_role secret 2000 token_customer ''u-bob'' ''staff'' empty_store
     = PUT_users_role secret 2000 token_admin ''u-bob'' ''staff'' empty_store \<and>
   PUT_bookings secret 2000 (send_sms no_key) token_customer ''B1'' (set_guests 3) store_B1
     = PUT_bookings secret 2000 (send_sms no_key) token_admin ''B1'' (set_guests 3) store_B1 \<and>
   result (PUT_bookings secret 2000 (send_sms no_key) token_customer ''B1'' (set_guests 3) store_B1)
     = Inr ''Booking B1 updated successfully''"
proof -
  have d1: "jwt_decode secret 2000 token_customer = Inr (payload token_customer)"
    and d2: "jwt_decode secret 2000 token_admin = Inr (payload token_admin)"
    by (simp_all add: jwt_decode_def token_customer_def token_admin_def create_access_token_def)
  have uid: "user_id_claim (payload token_customer) = user_id_claim (payload token_admin)"
    and sig: "signed_with token_customer = secret \<longleftrightarrow> signed_with token_admin = secret"
    and exp: "exp_claim (payload token_customer) \<le> 2000 \<longleftrightarrow> exp_claim (payload token_admin) \<le> 2000"
    by (simp_all add: token_customer_def token_admin_def create_access_token_def)
  have roles: "role_claim (payload token_customer) = Some ''customer''"
    "role_claim (payload token_admin) = Some ''admin''"
    by (simp_all add: token_customer_def token_admin_def create_access_token_def)
  have who: "get_current_user secret 2000 token_customer empty_store = Inr carol"
    by (simp add: get_current_user_def jwt_decode_def token_customer_def create_access_token_def
        fetch_user_def example_defs)
  have "PUT_users_role secret 2000 token_customer ''u-bob'' ''staff'' empty_store
      = update_user_role ''u-bob'' ''staff'' carol empty_store"
    by (simp add: PUT_users_role_def Depends_get_current_user_def who)
  then have promoted:
    "result (PUT_users_role secret 2000 token_customer ''u-bob'' ''staff'' empty_store)
       = Inr ''User u-bob role updated to staff''"
    by (simp add: update_user_role_def fetch_user_def example_defs)
  have "get_current_user secret 2000 token_customer store_B1 = Inr carol"
    by (simp add: get_current_user_def jwt_decode_def token_customer_def create_access_token_def
        fetch_user_def example_defs)
  then have "PUT_bookings secret 2000 (send_sms no_key) token_customer ''B1'' (set_guests 3) store_B1
      = update_booking (send_sms no_key) ''B1'' (set_guests 3) carol store_B1"
    by (simp add: PUT_bookings_def Depends_get_current_user_def)
  then have updated:
    "result (PUT_bookings secret 2000 (send_sms no_key) token_customer ''B1'' (set_guests 3) store_B1)
       = Inr ''Booking B1 updated successfully''"
    by (simp add: endpoint_defs example_defs)
  note at_empty = role_from_live_record [OF uid sig exp,
      where s = empty_store and handler = "update_user_role ''u-bob'' ''staff''"
        and send = "send_sms no_key" and new_id = "''B2''"
        and created_at = "''2024-05-30T11:00:00+07:00''"
        and new_booking = "request ''18:00'' ''19:00'' 2"
        and booking_id = "''B1''" and booking = "set_guests 3"
        and user_id = "''u-bob''" and role = "''staff''"]
  note at_B1 = role_from_live_record [OF uid sig exp,
      where s = store_B1 and handler = "update_user_role ''u-bob'' ''staff''"
        and send = "send_sms no_key" and new_id = "''B2''"
        and created_at = "''2024-05-30T11:00:00+07:00''"
        and new_booking = "request ''18:00'' ''19:00'' 2"
        and booking_id = "''B1''" and booking = "set_guests 3"
        and user_id = "''u-bob''" and role = "''staff''"]
  have same: "get_current_user secret 2000 token_admin empty_store = Inr carol"
    using at_empty who by simp
  have e1: "PUT_users_role secret 2000 token_customer ''u-bob'' ''staff'' empty_store
     = PUT_users_role secret 2000 token_admin ''u-bob'' ''staff'' empty_store"
    using at_empty by blast
  have e2: "PUT_bookings secret 2000 (send_sms no_key) token_customer ''B1'' (set_guests 3) store_B1
     = PUT_bookings secret 2000 (send_sms no_key) token_admin ''B1'' (set_guests 3) store_B1"
    using at_B1 by blast
  have admin: "u_role carol = ''admin''"
    by (simp add: carol_def)
  show ?thesis
    using d1 d2 uid sig exp roles who same admin promoted e1 e2 updated
    by blast
qed

text \<open>
  A change of role takes effect without a new login: the token issued before the
  change resolves to the user with the new role.
\<close>

lemma find_map_same:
  assumes "\<And>x. P (f x) = P x"
  shows "find P (map f xs) = map_option f (find P xs)"
  using assms by (induction xs) simp_all

lemma role_change_takes_effect:
  assumes "get_current_user SECRET_KEY now tok s = Inr user"
    and "result (update_user_role (u_id user) role admin s) = Inr msg"
  shows "get_current_user SECRET_KEY now tok (db (update_user_role (u_id user) role admin s))
           = Inr (user\<lparr>u_role := role\<rparr>)"
proof -
  let ?f = "\<lambda>u. if u_id u = u_id user then u\<lparr>u_role := role\<rparr> else u"
  have db: "db (update_user_role (u_id user) role admin s) = s\<lparr>users := map ?f (users s)\<rparr>"
    using assms(2) by (auto simp: update_user_role_def split: if_splits)
  have fetch: "fetch_user uid (s\<lparr>users := map ?f (users s)\<rparr>) = map_option ?f (fetch_user uid s)" for uid
    by (simp add: fetch_user_def find_map_same)
  show ?thesis
    using assms(1) unfolding db
    by (auto simp: get_current_user_def fetch fetch_user_id
        split: sum.splits jwt_error.splits option.splits if_splits)
qed

section \<open>Notifications are best effort\<close>

lemma create_booking_any_sender:
  "result (create_booking send1 booking_id created_at booking user s)
     = result (create_booking send2 booking_id created_at booking user s)"
  "db (create_booking send1 booking_id created_at booking user s)
     = db (create_booking send2 booking_id created_at booking user s)"
  by (simp_all add: create_booking_def split: option.splits)

lemma update_booking_any_sender:
  "result (update_booking send1 booking_id booking user s)
     = result (update_booking send2 booking_id booking user s)"
  "db (update_booking send1 booking_id booking user s)
     = db (update_booking send2 booking_id booking user s)"
  by (simp_all add: update_booking_def split: option.splits)

lemma delete_booking_any_sender:
  "result (delete_booking send1 booking_id user s)
     = result (delete_booking send2 booking_id user s)"
  "db (delete_booking send1 booking_id user s)
     = db (delete_booking send2 booking_id user s)"
  by (simp_all add: delete_booking_def split: option.splits)

lemma send_sms_returns: "\<exists>r. fst (send_sms env phone_number message) = Inr r"
  by (simp add: send_sms_def split: http_outcome.splits)

lemma send_sms_failure:
  assumes "\<not> truthy (SMSNOTIF_API_KEY env) \<or> (\<forall>body. post env phone_number message \<noteq> ResponseJson body)"
  shows "fst (send_sms env phone_number message) = Inr None"
    and "snd (send_sms env phone_number message) \<noteq> []"
  using assms by (auto simp: send_sms_def split: http_outcome.splits)

text \<open>
  Claim C9. Whatever the notification sender does (it may return, fail, or raise an
  exception), \<^verbatim>\<open>create_booking\<close>, \<^verbatim>\<open>update_booking\<close> and \<^verbatim>\<open>delete_booking\<close> return
  the same response or error and leave the same store: two senders can differ only in
  what is printed. \<^verbatim>\<open>send_sms\<close> itself never raises, and when the API key is missing
  or the POST does not return a response (HTTP error, timeout, any other exception) it
  returns \<^verbatim>\<open>None\<close> and prints a line.
\<close>

theorem notification_best_effort:
  "result (create_booking send1 new_id created_at new_booking user s)
     = result (create_booking send2 new_id created_at new_booking user s) \<and>
   db (create_booking send1 new_id created_at new_booking user s)
     = db (create_booking send2 new_id created_at new_booking user s) \<and>
   result (update_booking send1 booking_id booking user s)
     = result (update_booking send2 booking_id booking user s) \<and>
   db (update_booking send1 booking_id booking user s)
     = db (update_booking send2 booking_id booking user s) \<and>
   result (delete_booking send1 booking_id user s)
     = result (delete_booking send2 booking_id user s) \<and>
   db (delete_booking send1 booking_id user s)
     = db (delete_booking send2 booking_id user s) \<and>
   (\<exists>r. fst (send_sms env phone_number message) = Inr r) \<and>
   (\<not> truthy (SMSNOTIF_API_KEY env) \<or> (\<forall>body. post env phone_number message \<noteq> ResponseJson body) \<longrightarrow>
      fst (send_sms env phone_number message) = Inr None \<and>
      snd (send_sms env phone_number message) \<noteq> [])"
  using create_booking_any_sender [of send1 new_id created_at new_booking user s send2]
    update_booking_any_sender [of send1 booking_id booking user s send2]
    delete_booking_any_sender [of send1 booking_id user s send2]
    send_sms_returns [of env phone_number message]
    send_sms_failure [of env phone_number message]
  by blast

text \<open>
  Alice books 19:00-20:00 with a sender that delivers, one that raises, one that times
  out and one without an API key: the response and the store are the same, the
  printed lines differ.
\<close>

theorem notification_best_effort_witness:
  "result (create_booking (send_sms delivering) ''B2'' ''2024-05-30T11:00:00+07:00''
            (request ''19:00'' ''20:00'' 2) alice store_B1)
     = result (create_booking raising ''B2'' ''2024-05-30T11:00:00+07:00''
            (request ''19:00'' ''20:00'' 2) alice store_B1) \<and>
   db (create_booking (send_sms delivering) ''B2'' ''2024-05-30T11:00:00+07:00''
            (request ''19:00'' ''20:00'' 2) alice store_B1)
     = db (create_booking raising ''B2'' ''2024-05-30T11:00:00+07:00''
            (request ''19:00'' ''20:00'' 2) alice store_B1) \<and>
   result (create_booking raising ''B2'' ''2024-05-30T11:00:00+07:00''
            (request ''19:00'' ''20:00'' 2) alice store_B1)
     = Inr \<lparr>o_id = ''B2'', o_user_id = ''u-alice'', o_table_id = ''T'', o_table_number = 7,
            o_date = ''2024-06-01'', o_start_time = ''19:00'', o_end_time = ''20:00'',
            o_guests = 2, o_status = ''confirmed'',
            o_created_at = ''2024-05-30T11:00:00+07:00''\<rparr> \<and>
   printed (create_booking (send_sms delivering) ''B2'' ''2024-05-30T11:00:00+07:00''
            (request ''19:00'' ''20:00'' 2) alice store_B1) = [] \<and>
   printed (create_booking raising ''B2'' ''2024-05-30T11:00:00+07:00''
            (request ''19:00'' ''20:00'' 2) alice store_B1)
     = [NotificationFailedOnCreate ''boom''] \<and>
   printed (create_booking (send_sms timing_out) ''B2'' ''2024-05-30T11:00:00+07:00''
            (request ''19:00'' ''20:00'' 2) alice store_B1)
     = [SmsApiTimedOut] \<and>
   printed (create_booking (send_sms no_key) ''B2'' ''2024-05-30T11:00:00+07:00''
            (request ''19:00'' ''20:00'' 2) alice store_B1)
     = [ApiKeyNotSet] \<and>
   send_sms timing_out ''+6281234567890'' (BookingUpdated ''Alice'' ''B1'')
     = (Inr None, [SmsApiTimedOut])"
proof -
  note same = notification_best_effort [where ?send1.0 = "send_sms delivering"
      and ?send2.0 = raising and new_id = "''B2''"
      and created_at = "''2024-05-30T11:00:00+07:00''"
      and new_booking = "request ''19:00'' ''20:00'' 2" and user = alice and s = store_B1
      and booking_id = "''B1''" and booking = "set_guests 3" and env = timing_out
      and phone_number = "''+6281234567890''" and message = "BookingUpdated ''Alice'' ''B1''"]
  have r: "result (create_booking (send_sms delivering) ''B2'' ''2024-05-30T11:00:00+07:00''
            (request ''19:00'' ''20:00'' 2) alice store_B1)
     = result (create_booking raising ''B2'' ''2024-05-30T11:00:00+07:00''
            (request ''19:00'' ''20:00'' 2) alice store_B1)"
    and d: "db (create_booking (send_sms delivering) ''B2'' ''2024-05-30T11:00:00+07:00''
            (request ''19:00'' ''20:00'' 2) alice store_B1)
     = db (create_booking raising ''B2'' ''2024-05-30T11:00:00+07:00''
            (request ''19:00'' ''20:00'' 2) alice store_B1)"
    using same by blast+
  have v: "result (create_booking raising ''B2'' ''2024-05-30T11:00:00+07:00''
            (request ''19:00'' ''20:00'' 2) alice store_B1)
     = Inr \<lparr>o_id = ''B2'', o_user_id = ''u-alice'', o_table_id = ''T'', o_table_number = 7,
            o_date = ''2024-06-01'', o_start_time = ''19:00'', o_end_time = ''20:00'',
            o_guests = 2, o_status = ''confirmed'',
            o_created_at = ''2024-05-30T11:00:00+07:00''\<rparr>"
    by (simp add: endpoint_defs example_defs)
  have p1: "printed (create_booking (send_sms delivering) ''B2'' ''2024-05-30T11:00:00+07:00''
            (request ''19:00'' ''20:00'' 2) alice store_B1) = []"
    by (simp add: endpoint_defs example_defs)
  have p2: "printed (create_booking raising ''B2'' ''2024-05-30T11:00:00+07:00''
            (request ''19:00'' ''20:00'' 2) alice store_B1)
     = [NotificationFailedOnCreate ''boom'']"
    by (simp add: endpoint_defs example_defs)
  have p3: "printed (create_booking (send_sms timing_out) ''B2'' ''2024-05-30T11:00:00+07:00''
            (request ''19:00'' ''20:00'' 2) alice store_B1)
     = [SmsApiTimedOut]"
    by (simp add: endpoint_defs example_defs)
  have p4: "printed (create_booking (send_sms no_key) ''B2'' ''2024-05-30T11:00:00+07:00''
            (request ''19:00'' ''20:00'' 2) alice store_B1)
     = [ApiKeyNotSet]"
    by (simp add: endpoint_defs example_defs)
  have q: "send_sms timing_out ''+6281234567890'' (BookingUpdated ''Alice'' ''B1'')
     = (Inr None, [SmsApiTimedOut])"
    by (simp add: send_sms_def timing_out_def)
  show ?thesis
    using r d v p1 p2 p3 p4 q by blast
qed

section \<open>What an update never writes\<close>

lemma identity_of_set_fields: "identity_of (set_fields booking b) = identity_of b"
  by (simp add: identity_of_def set_fields_def)

lemma update_booking_db:
  "db (update_booking send booking_id booking user s) = s \<or>
   db (update_booking send booking_id booking user s) =
     s\<lparr>bookings := map (\<lambda>b. if b_id b = booking_id then set_fields booking b else b) (bookings s)\<rparr>"
  by (cases "result (update_booking send booking_id booking user s)")
     (simp_all add: update_booking_failure_keeps_store update_booking_success)

text \<open>
  Claim C10. \<^verbatim>\<open>update_booking\<close>, accepted or not, leaves the identifier, the owning
  user and the creation timestamp of every booking as they were, row by row and for
  the booking found under any identifier; users and tables are not written. Of a
  booking's nine columns only table, date, start, end, guests and status can change.
\<close>

theorem update_booking_frame:
  "map identity_of (bookings (db (update_booking send booking_id booking user s)))
     = map identity_of (bookings s) \<and>
   users (db (update_booking send booking_id booking user s)) = users s \<and>
   tables (db (update_booking send booking_id booking user s)) = tables s \<and>
   map_option identity_of (fetch_booking bid (db (update_booking send booking_id booking user s)))
     = map_option identity_of (fetch_booking bid s)"
proof -
  let ?g = "\<lambda>b. if b_id b = booking_id then set_fields booking b else b"
  have ident: "identity_of (?g b) = identity_of b" for b
    by (simp add: identity_of_set_fields)
  have ids: "(b_id (?g b) = bid) = (b_id b = bid)" for b
    by (simp add: set_fields_def)
  have rows: "map identity_of (map ?g (bookings s)) = map identity_of (bookings s)"
    using ident by (simp add: comp_def)
  have "find (\<lambda>b. b_id b = bid) (map ?g (bookings s))
      = map_option ?g (find (\<lambda>b. b_id b = bid) (bookings s))"
    by (rule find_map_same) (rule ids)
  then have fetched: "map_option identity_of (find (\<lambda>b. b_id b = bid) (map ?g (bookings s)))
      = map_option identity_of (find (\<lambda>b. b_id b = bid) (bookings s))"
    using ident by (simp add: option.map_comp comp_def)
  show ?thesis
    using update_booking_db [of send booking_id booking user s] rows fetched
    by (auto simp: fetch_booking_def)
qed

text \<open>
  The administrator rewrites all six writable columns of Alice's booking B1: it is
  still B1, still Alice's, with its creation timestamp.
\<close>

theorem update_booking_frame_witness:
  "map identity_of
     (bookings (db (update_booking (send_sms no_key) ''B1''
        \<lparr>bu_table_id = Some ''T'', bu_date = Some ''2024-06-02'', bu_start_time = Some ''12:00'',
         bu_end_time = Some ''13:00'', bu_guests = Some 4, bu_status = Some ''cancelled''\<rparr>
        carol store_B1_B3)))
     = [(''B1'', ''u-alice'', ''2024-05-30T10:00:00+07:00''),
        (''B3'', ''u-bob'', ''2024-05-30T12:00:00+07:00'')] \<and>
   bookings (db (update_booking (send_sms no_key) ''B1''
        \<lparr>bu_table_id = Some ''T'', bu_date = Some ''2024-06-02'', bu_start_time = Some ''12:00'',
         bu_end_time = Some ''13:00'', bu_guests = Some 4, bu_status = Some ''cancelled''\<rparr>
        carol store_B1_B3))
     = [\<lparr>b_id = ''B1'', b_user_id = ''u-alice'', b_table_id = ''T'', b_date = ''2024-06-02'',
         b_start_time = ''12:00'', b_end_time = ''13:00'', b_guests = 4,
         b_status = ''cancelled'', b_created_at = ''2024-05-30T10:00:00+07:00''\<rparr>, B3]"
proof -
  have rows: "bookings (db (update_booking (send_sms no_key) ''B1''
        \<lparr>bu_table_id = Some ''T'', bu_date = Some ''2024-06-02'', bu_start_time = Some ''12:00'',
         bu_end_time = Some ''13:00'', bu_guests = Some 4, bu_status = Some ''cancelled''\<rparr>
        carol store_B1_B3))
     = [\<lparr>b_id = ''B1'', b_user_id = ''u-alice'', b_table_id = ''T'', b_date = ''2024-06-02'',
         b_start_time = ''12:00'', b_end_time = ''13:00'', b_guests = 4,
         b_status = ''cancelled'', b_created_at = ''2024-05-30T10:00:00+07:00''\<rparr>, B3]"
    by (simp add: endpoint_defs example_defs)
  have before: "map identity_of (bookings store_B1_B3)
     = [(''B1'', ''u-alice'', ''2024-05-30T10:00:00+07:00''),
        (''B3'', ''u-bob'', ''2024-05-30T12:00:00+07:00'')]"
    by (simp add: identity_of_def example_defs)
  show ?thesis
    using rows before
      update_booking_frame [of "send_sms no_key" "''B1''"
        "\<lparr>bu_table_id = Some ''T'', bu_date = Some ''2024-06-02'', bu_start_time = Some ''12:00'',
         bu_end_time = Some ''13:00'', bu_guests = Some 4, bu_status = Some ''cancelled''\<rparr>"
        carol store_B1_B3 "''B1''"]
    by simp
qed

section \<open>The no-overlap invariant\<close>

text \<open>
  Claim C1. The invariant is to hold in every state reached by creating, updating and
  deleting bookings. It does not: \<^verbatim>\<open>update_booking\<close> runs the conflict check only when
  table, date, start or end is in the payload, so an update that only sets the status
  back to \<^verbatim>\<open>confirmed\<close> is never checked. Alice books table T for 18:00-19:00 and
  cancels with a status update; Bob books the same slot; Alice sets her status to
  \<^verbatim>\<open>confirmed\<close> again. Every call succeeds, and the store then holds two confirmed
  bookings of table T on 2024-06-01 from 18:00 to 19:00, whose intervals share 18:00.
\<close>

theorem reconfirm_breaks_no_overlap:
  "bookings (run (send_sms no_key) (take 3 reconfirm_run) empty_store)
     = [B1\<lparr>b_status := ''cancelled''\<rparr>, B2] \<and>
   result (update_booking (send_sms no_key) ''B1'' (set_status ''confirmed'') alice
             (run (send_sms no_key) (take 3 reconfirm_run) empty_store))
     = Inr ''Booking B1 updated successfully'' \<and>
   bookings (run (send_sms no_key) reconfirm_run empty_store) = [B1, B2] \<and>
   b_id B1 \<noteq> b_id B2 \<and> overlapping B1 B2 \<and>
   ''18:00'' \<in> {b_start_time B1..<b_end_time B1} \<inter> {b_start_time B2..<b_end_time B2}"
  by (simp add: reconfirm_run_def endpoint_defs example_defs overlapping_def)

text \<open>In the terms of the invariant: it holds before the run and fails after it.\<close>

lemma reconfirm_run_violates:
  "no_overlap empty_store" "unique_ids empty_store"
  "\<not> no_overlap (run (send_sms no_key) reconfirm_run empty_store)"
  by (simp_all add: no_overlap_def unique_ids_def reconfirm_run_def endpoint_defs example_defs
      overlapping_def)

text \<open>
  The strict test on both sides is the intersection of the half-open intervals: two
  rows of one table and date, neither cancelled, whose intervals share a point are
  overlapping, so \<open>no_overlap\<close> excludes every such pair.
\<close>

lemma strict_test_is_intersection:
  fixes s1 e1 s2 e2 :: "'a::linorder"
  shows "{s1..<e1} \<inter> {s2..<e2} \<noteq> {} \<longleftrightarrow> s1 < e1 \<and> s2 < e2 \<and> s1 < e2 \<and> s2 < e1"
  by auto

lemma intersecting_rows_overlap:
  assumes "b_table_id a = b_table_id b" and "b_date a = b_date b"
    and "b_status a \<noteq> ''cancelled''" and "b_status b \<noteq> ''cancelled''"
    and "{b_start_time a..<b_end_time a} \<inter> {b_start_time b..<b_end_time b} \<noteq> {}"
  shows "overlapping a b"
  using assms by (simp add: overlapping_def strict_test_is_intersection)

text \<open>
  This is the only way to break it. Creation, deletion, and every update that does
  not re-confirm a cancelled row without a new slot keep the invariant, given that
  identifiers are unique (which the store's primary key maintains).
\<close>

lemma overlapping_sym: "overlapping a b \<longleftrightarrow> overlapping b a"
  by (auto simp: overlapping_def)

lemma overlapping_conflicts:
  "overlapping a b \<Longrightarrow> conflicts_with (b_table_id a) (b_date a) (b_start_time a) (b_end_time a) b"
  by (simp add: overlapping_def conflicts_with_def)

lemma create_booking_db:
  "db (create_booking send booking_id created_at booking user s) = s \<or>
   (check_booking_conflict s (bc_table_id booking) (bc_date booking)
        (bc_start_time booking) (bc_end_time booking) None = None \<and>
    fetch_booking booking_id s = None \<and>
    db (create_booking send booking_id created_at booking user s) =
      s\<lparr>bookings := bookings s @
         [\<lparr>b_id = booking_id, b_user_id = u_id user, b_table_id = bc_table_id booking,
           b_date = bc_date booking, b_start_time = bc_start_time booking,
           b_end_time = bc_end_time booking, b_guests = bc_guests booking,
           b_status = ''confirmed'', b_created_at = created_at\<rparr>]\<rparr>)"
  by (auto simp: create_booking_def insert_booking_def split: option.splits if_splits)

lemma create_booking_preserves:
  assumes "unique_ids s" and "no_overlap s"
  shows "unique_ids (db (create_booking send booking_id created_at booking user s)) \<and>
         no_overlap (db (create_booking send booking_id created_at booking user s))"
proof -
  let ?new = "\<lparr>b_id = booking_id, b_user_id = u_id user, b_table_id = bc_table_id booking,
           b_date = bc_date booking, b_start_time = bc_start_time booking,
           b_end_time = bc_end_time booking, b_guests = bc_guests booking,
           b_status = ''confirmed'', b_created_at = created_at\<rparr>"
  consider (same) "db (create_booking send booking_id created_at booking user s) = s"
    | (added) "check_booking_conflict s (bc_table_id booking) (bc_date booking)
        (bc_start_time booking) (bc_end_time booking) None = None"
      "fetch_booking booking_id s = None"
      "db (create_booking send booking_id created_at booking user s) =
         s\<lparr>bookings := bookings s @ [?new]\<rparr>"
    using create_booking_db [of send booking_id created_at booking user s] by auto
  then show ?thesis
  proof cases
    case same
    then show ?thesis using assms by simp
  next
    case added
    have free: "\<forall>b \<in> set (bookings s). \<not> conflicts_with (b_table_id ?new) (b_date ?new)
        (b_start_time ?new) (b_end_time ?new) b"
      using added(1) by (simp add: check_booking_conflict_def find_None_iff)
    have fresh: "\<forall>b \<in> set (bookings s). b_id b \<noteq> booking_id"
      using added(2) by (simp add: fetch_booking_def find_None_iff)
    have clear: "\<not> overlapping ?new b \<and> \<not> overlapping b ?new" if "b \<in> set (bookings s)" for b
      using free that overlapping_conflicts [of ?new b] overlapping_sym [of b ?new] by blast
    have u: "unique_ids (s\<lparr>bookings := bookings s @ [?new]\<rparr>)"
      using assms(1) fresh by (auto simp: unique_ids_def)
    have n: "no_overlap (s\<lparr>bookings := bookings s @ [?new]\<rparr>)"
      using assms(2) clear by (auto simp: no_overlap_def)
    show ?thesis
      unfolding added(3) using u n by simp
  qed
qed

lemma delete_booking_preserves:
  assumes "unique_ids s" and "no_overlap s"
  shows "unique_ids (db (delete_booking send booking_id user s)) \<and>
         no_overlap (db (delete_booking send booking_id user s))"
proof -
  have "db (delete_booking send booking_id user s) = s \<or>
        db (delete_booking send booking_id user s) = delete_bookings booking_id s"
    by (simp add: delete_booking_def split: option.splits)
  moreover have "unique_ids (delete_bookings booking_id s)"
    using assms(1) by (simp add: unique_ids_def delete_bookings_def distinct_map_filter)
  moreover have "no_overlap (delete_bookings booking_id s)"
    using assms(2) by (simp add: no_overlap_def delete_bookings_def)
  ultimately show ?thesis
    using assms by auto
qed

lemma no_conflict_excluding:
  assumes "check_booking_conflict s t d st en (Some bid) = None"
    and "b \<in> set (bookings s)" and "b_id b \<noteq> bid"
  shows "\<not> conflicts_with t d st en b"
  using assms by (auto simp: check_booking_conflict_def find_None_iff split: if_splits)

lemma update_booking_db_cases:
  "db (update_booking send booking_id booking user s) = s \<or>
   (\<exists>existing. fetch_booking booking_id s = Some existing \<and> \<not> invalid_status booking \<and>
      (slot_fields booking \<longrightarrow>
         check_booking_conflict s
           (b_table_id (set_fields booking existing)) (b_date (set_fields booking existing))
           (b_start_time (set_fields booking existing)) (b_end_time (set_fields booking existing))
           (Some booking_id) = None) \<and>
      db (update_booking send booking_id booking user s) =
        s\<lparr>bookings := map (\<lambda>b. if b_id b = booking_id then set_fields booking b else b) (bookings s)\<rparr>)"
  by (auto simp: update_booking_def update_bookings_def split: option.splits if_splits)

lemma update_booking_preserves:
  assumes uniq: "unique_ids s" and inv: "no_overlap s"
    and plain: "\<not> reconfirms (UpdateBooking booking_id booking user) s"
  shows "unique_ids (db (update_booking send booking_id booking user s)) \<and>
         no_overlap (db (update_booking send booking_id booking user s))"
proof -
  let ?g = "\<lambda>b. if b_id b = booking_id then set_fields booking b else b"
  let ?s' = "s\<lparr>bookings := map ?g (bookings s)\<rparr>"
  consider (same) "db (update_booking send booking_id booking user s) = s"
    | (written) existing where "fetch_booking booking_id s = Some existing"
        "\<not> invalid_status booking"
        "slot_fields booking \<longrightarrow>
         check_booking_conflict s
           (b_table_id (set_fields booking existing)) (b_date (set_fields booking existing))
           (b_start_time (set_fields booking existing)) (b_end_time (set_fields booking existing))
           (Some booking_id) = None"
        "db (update_booking send booking_id booking user s) = ?s'"
    using update_booking_db_cases [of send booking_id booking user s] by auto
  then show ?thesis
  proof cases
    case same
    then show ?thesis using uniq inv by simp
  next
    case written
    let ?new = "set_fields booking existing"
    have ex: "existing \<in> set (bookings s)" "b_id existing = booking_id"
      using written(1) by (auto simp: fetch_booking_def dest: find_SomeD)
    have only: "a = existing" if "a \<in> set (bookings s)" "b_id a = booking_id" for a
      using uniq ex that by (auto simp: unique_ids_def distinct_map dest: inj_onD)
    have ids: "b_id (?g b) = b_id b" for b
      by (simp add: set_fields_def)
    have u: "unique_ids ?s'"
      using uniq by (simp add: unique_ids_def comp_def ids)
    have clear: "\<not> overlapping ?new b" if b: "b \<in> set (bookings s)" "b_id b \<noteq> booking_id" for b
    proof (cases "slot_fields booking")
      case True
      then have "\<not> conflicts_with (b_table_id ?new) (b_date ?new) (b_start_time ?new)
          (b_end_time ?new) b"
        using written(3) b no_conflict_excluding by blast
      then show ?thesis
        using overlapping_conflicts by blast
    next
      case False
      then have slot: "b_table_id ?new = b_table_id existing" "b_date ?new = b_date existing"
        "b_start_time ?new = b_start_time existing" "b_end_time ?new = b_end_time existing"
        by (simp_all add: slot_fields_def set_fields_def)
      have old: "\<not> overlapping existing b"
        using inv ex b by (auto simp: no_overlap_def)
      have status: "b_status existing = ''cancelled'' \<Longrightarrow> b_status ?new = ''cancelled''"
        using plain False written(1,2)
        by (auto simp: reconfirms_def invalid_status_def set_fields_def split: option.splits)
      show ?thesis
        using old slot status by (auto simp: overlapping_def)
    qed
    have n: "no_overlap ?s'"
      unfolding no_overlap_def
    proof (intro ballI impI)
      fix a' b'
      assume "a' \<in> set (bookings ?s')" "b' \<in> set (bookings ?s')" and diff: "b_id a' \<noteq> b_id b'"
      then obtain a b where ab: "a \<in> set (bookings s)" "b \<in> set (bookings s)"
        "a' = ?g a" "b' = ?g b"
        by auto
      have diff': "b_id a \<noteq> b_id b"
        using diff ab ids by simp
      show "\<not> overlapping a' b'"
      proof (cases "b_id a = booking_id")
        case True
        then have "a' = ?new" "b' = b" "b_id b \<noteq> booking_id"
          using ab diff' only by auto
        then show ?thesis using clear ab by simp
      next
        case False
        show ?thesis
        proof (cases "b_id b = booking_id")
          case True
          then have "b' = ?new" "a' = a"
            using ab False only by auto
          then show ?thesis using clear [of a] ab False overlapping_sym by simp
        next
          case False
          then show ?thesis
            using \<open>b_id a \<noteq> booking_id\<close> ab diff' inv by (auto simp: no_overlap_def)
        qed
      qed
    qed
    show ?thesis
      unfolding written(4) using u n by simp
  qed
qed

lemma no_overlap_step:
  assumes "unique_ids s" and "no_overlap s" and "\<not> reconfirms x s"
  shows "unique_ids (after send x s) \<and> no_overlap (after send x s)"
  using assms
  by (cases x)
     (simp_all add: create_booking_preserves delete_booking_preserves update_booking_preserves)

lemma no_overlap_run:
  assumes "unique_ids s" and "no_overlap s" and "no_reconfirm send xs s"
  shows "unique_ids (run send xs s) \<and> no_overlap (run send xs s)"
  using assms
proof (induction xs arbitrary: s)
  case Nil
  then show ?case by simp
next
  case (Cons x xs)
  then show ?case
    using no_overlap_step [of s x send] by simp
qed

end
